theory Spec2Isabelle
  imports Complex_Main
begin

section \<open>Billing Rule Engine\<close>

text \<open>
  The billing engine (\<^verbatim>\<open>project_billing_analyzer.py\<close>) belongs to the Python backend. The
  front end shows the shape of its output only, in the interfaces \<^verbatim>\<open>CategoryInvoiceItem\<close>,
  \<^verbatim>\<open>EmployeeInvoiceItem\<close> and \<^verbatim>\<open>MonthlyInvoice\<close> and in the invoice table that prints them.
  The engine is modelled from the specification (section 4.4), hours being real numbers
  and calendar dates day numbers.
\<close>

text \<open>Modelled from the spec: the normalized work record of section 3, the engine's input; the
  reference to an employee is a resolved primary email or the marker for unresolved.\<close>
datatype employee_ref = Resolved string | Unresolved

record NormalizedWorkRecord =
  employee_ref :: employee_ref
  date :: int
  hours :: real
  task_count :: nat
  project :: string
  category :: string

text \<open>Modelled from the spec: the billing policy of a project, a table from category token to
  a daily cap in hours or "uncapped".\<close>
datatype cap = Capped real | Uncapped

type_synonym policy = "string \<rightharpoonup> cap"

datatype billing_error = MissingPolicy string | ZeroDivisionError

text \<open>Modelled from the spec: the billing record of a bucket, the rollup of an employee and
  the summary of a project, with the fields of sections 3 and 4.4.\<close>
record BillingRecord =
  br_employee :: employee_ref
  br_date :: int
  br_category :: string
  actual_hours :: real
  billable_hours :: real
  extra_hours :: real
  cap_applied :: bool

record EmployeeBilling =
  eb_employee :: employee_ref
  eb_total_hours :: real
  eb_billable_hours :: real
  eb_extra_hours :: real
  billing_efficiency :: real

record BillingSummary =
  buckets :: "BillingRecord list"
  total_hours :: real
  total_billable_hours :: real
  total_extra_hours :: real
  has_sow_violations :: bool
  employee_breakdown :: "EmployeeBilling list"

text \<open>Modelled from the spec: the policy lookup of the billing engine; a category that the
  project's table does not configure is uncapped.\<close>
definition cap_of :: "policy \<Rightarrow> string \<Rightarrow> cap" where
  "cap_of pol c = (case pol c of None \<Rightarrow> Uncapped | Some k \<Rightarrow> k)"

type_synonym bucket_key = "employee_ref \<times> int \<times> string"

text \<open>Modelled from the spec: the bucket of a record.\<close>
definition key_of :: "NormalizedWorkRecord \<Rightarrow> bucket_key" where
  "key_of r = (employee_ref r, date r, category r)"

text \<open>Modelled from the spec: the buckets of the billing engine, one per (employee, date,
  category) that occurs in the records.\<close>
definition bucket_keys :: "NormalizedWorkRecord list \<Rightarrow> bucket_key list" where
  "bucket_keys recs = remdups (map key_of recs)"

text \<open>Modelled from the spec: the hours summed over the records of a bucket.\<close>
definition summed_hours :: "NormalizedWorkRecord list \<Rightarrow> bucket_key \<Rightarrow> real" where
  "summed_hours recs k = sum_list (map hours (filter (\<lambda>r. key_of r = k) recs))"

text \<open>Modelled from the spec: the cap rule of the billing engine. When a cap exists and the
  summed hours exceed it, the cap is billable and the rest is extra; otherwise everything
  is billable.\<close>
definition bill_bucket :: "policy \<Rightarrow> bucket_key \<Rightarrow> real \<Rightarrow> BillingRecord" where
  "bill_bucket pol k s =
     (case k of (e, d, c) \<Rightarrow>
        (case cap_of pol c of
           Capped capv \<Rightarrow>
             if s > capv
             then \<lparr>br_employee = e, br_date = d, br_category = c, actual_hours = s,
                   billable_hours = capv, extra_hours = s - capv, cap_applied = True\<rparr>
             else \<lparr>br_employee = e, br_date = d, br_category = c, actual_hours = s,
                   billable_hours = s, extra_hours = 0, cap_applied = False\<rparr>
         | Uncapped \<Rightarrow>
             \<lparr>br_employee = e, br_date = d, br_category = c, actual_hours = s,
              billable_hours = s, extra_hours = 0, cap_applied = False\<rparr>))"

text \<open>Modelled from the spec: the billing records of all buckets.\<close>
definition bill_buckets :: "policy \<Rightarrow> NormalizedWorkRecord list \<Rightarrow> BillingRecord list" where
  "bill_buckets pol recs = map (\<lambda>k. bill_bucket pol k (summed_hours recs k)) (bucket_keys recs)"

text \<open>Modelled from the spec: the guarded quotient of the employee rollup. A division is a
  partial operation here, so that a missing guard would show as \<open>Inl ZeroDivisionError\<close>.\<close>
definition checked_div :: "real \<Rightarrow> real \<Rightarrow> billing_error + real" where
  "checked_div a b = (if b = 0 then Inl ZeroDivisionError else Inr (a / b))"

text \<open>Modelled from the spec: billing efficiency = total billable hours / total hours * 100,
  defined as 100 when the total hours are zero.\<close>
definition efficiency :: "real \<Rightarrow> real \<Rightarrow> billing_error + real" where
  "efficiency tb th =
     (if th = 0 then Inr 100
      else (case checked_div tb th of Inl e \<Rightarrow> Inl e | Inr q \<Rightarrow> Inr (q * 100)))"

text \<open>Modelled from the spec: the rollup of one employee over the billing records.\<close>
definition employee_rollup :: "BillingRecord list \<Rightarrow> employee_ref \<Rightarrow> billing_error + EmployeeBilling" where
  "employee_rollup bs e =
     (let mine = filter (\<lambda>b. br_employee b = e) bs;
          th = sum_list (map actual_hours mine);
          tb = sum_list (map billable_hours mine);
          tx = sum_list (map extra_hours mine)
      in (case efficiency tb th of
            Inl err \<Rightarrow> Inl err
          | Inr eff \<Rightarrow> Inr \<lparr>eb_employee = e, eb_total_hours = th, eb_billable_hours = tb,
                            eb_extra_hours = tx, billing_efficiency = eff\<rparr>))"

text \<open>Modelled from the spec: the rollup of every employee; the first error ends it.\<close>
fun rollup_all :: "BillingRecord list \<Rightarrow> employee_ref list \<Rightarrow> billing_error + EmployeeBilling list" where
  "rollup_all bs [] = Inr []"
| "rollup_all bs (e # es) =
     (case employee_rollup bs e of
        Inl err \<Rightarrow> Inl err
      | Inr r \<Rightarrow> (case rollup_all bs es of Inl err \<Rightarrow> Inl err | Inr rs \<Rightarrow> Inr (r # rs)))"

text \<open>Modelled from the spec: \<open>bill(project, records)\<close>. The policy table is injected; a
  project without a policy is a configuration error, surfaced to the caller.\<close>
definition bill :: "(string \<rightharpoonup> policy) \<Rightarrow> string \<Rightarrow> NormalizedWorkRecord list \<Rightarrow> billing_error + BillingSummary" where
  "bill table proj recs =
     (case table proj of
        None \<Rightarrow> Inl (MissingPolicy proj)
      | Some pol \<Rightarrow>
          (let bs = bill_buckets pol recs in
           (case rollup_all bs (remdups (map br_employee bs)) of
              Inl err \<Rightarrow> Inl err
            | Inr emps \<Rightarrow>
                Inr \<lparr>buckets = bs,
                     total_hours = sum_list (map actual_hours bs),
                     total_billable_hours = sum_list (map billable_hours bs),
                     total_extra_hours = sum_list (map extra_hours bs),
                     has_sow_violations = list_ex (\<lambda>b. cap_applied b \<and> extra_hours b > 0) bs,
                     employee_breakdown = emps\<rparr>)))"

text \<open>Modelled from the spec: the policy table. The two policies are those that the
  repository's documentation describes: Lyell caps ETL and Reporting at four hours a day,
  DataPlatr has no caps.\<close>
definition lyell_policy :: policy where
  "lyell_policy = [''etl'' \<mapsto> Capped 4, ''reporting'' \<mapsto> Capped 4, ''development'' \<mapsto> Uncapped]"

definition dataplatr_policy :: policy where
  "dataplatr_policy = Map.empty"

definition project_policies :: "string \<rightharpoonup> policy" where
  "project_policies = [''lyell'' \<mapsto> lyell_policy, ''dataplatr'' \<mapsto> dataplatr_policy]"


section \<open>Submission Index and Individual Metrics\<close>

text \<open>
  The submission index and the metrics engine (\<^verbatim>\<open>base_processor.py\<close>,
  \<^verbatim>\<open>individual_analyzer.py\<close>) belong to the Python backend as well and are modelled from
  the specification (sections 3 and 4.2).
\<close>

text \<open>Modelled from the spec: the working days of the submission index, every calendar day
  between the earliest and the latest date of all records, both included.\<close>
definition working_days :: "NormalizedWorkRecord list \<Rightarrow> int list" where
  "working_days recs =
     (if recs = [] then [] else [Min (set (map date recs)) .. Max (set (map date recs))])"

text \<open>Modelled from the spec: the submitted days of one employee, the days that carry at
  least one record resolved to that employee. Unresolved records count for nobody.\<close>
definition submitted_days :: "NormalizedWorkRecord list \<Rightarrow> string \<Rightarrow> int list" where
  "submitted_days recs e =
     sort (remdups (map date (filter (\<lambda>r. employee_ref r = Resolved e) recs)))"

text \<open>Modelled from the spec: submission rate = submitted days / working days, with the
  well-defined value zero on an empty dataset.\<close>
definition submission_rate :: "NormalizedWorkRecord list \<Rightarrow> string \<Rightarrow> real" where
  "submission_rate recs e =
     (if working_days recs = [] then 0
      else real (length (submitted_days recs e)) / real (length (working_days recs)))"

text \<open>Modelled from the spec: the longest run of consecutive working days without a
  submission. The loop carries the length of the current run and the best one so far.\<close>
fun gap_scan :: "int list \<Rightarrow> int list \<Rightarrow> nat \<Rightarrow> nat \<Rightarrow> nat" where
  "gap_scan [] sub cur best = max cur best"
| "gap_scan (d # ds) sub cur best =
     (if d \<in> set sub then gap_scan ds sub 0 (max cur best)
      else gap_scan ds sub (Suc cur) best)"

definition max_consecutive_gap :: "NormalizedWorkRecord list \<Rightarrow> string \<Rightarrow> nat" where
  "max_consecutive_gap recs e = gap_scan (working_days recs) (submitted_days recs e) 0 0"

text \<open>Modelled from the spec: the counts and the rate of the individual metrics.\<close>
record IndividualMetrics =
  days_submitted :: nat
  days_missed :: nat
  im_submission_rate :: real
  im_max_gap :: nat

text \<open>Modelled from the spec: the metrics of one employee, a function of the records.\<close>
definition compute_metrics :: "NormalizedWorkRecord list \<Rightarrow> string \<Rightarrow> IndividualMetrics" where
  "compute_metrics recs e =
     \<lparr>days_submitted = length (submitted_days recs e),
      days_missed = length (working_days recs) - length (submitted_days recs e),
      im_submission_rate = submission_rate recs e,
      im_max_gap = max_consecutive_gap recs e\<rparr>"

section \<open>Status classification\<close>

text \<open>Modelled from the spec: the six statuses, the inputs of the classification and its
  thresholds, which are business policy and therefore a parameter.\<close>
datatype Status = NonReporter | VeryPoor | Poor | Inconsistent | Good | Excellent

record status_inputs =
  si_rate :: real
  si_hours :: real
  si_gap :: nat

record thresholds =
  very_poor_rate :: real
  poor_rate :: real
  inconsistent_gap :: nat
  good_min_hours :: real
  excellent_rate :: real
  excellent_hours_lo :: real
  excellent_hours_hi :: real
  excellent_max_gap :: nat

text \<open>Modelled from the spec: the default thresholds of section 4.2.\<close>
definition default_thresholds :: thresholds where
  "default_thresholds =
     \<lparr>very_poor_rate = 0.5, poor_rate = 0.7, inconsistent_gap = 3, good_min_hours = 6,
      excellent_rate = 0.9, excellent_hours_lo = 7, excellent_hours_hi = 10,
      excellent_max_gap = 1\<rparr>"

text \<open>Modelled from the spec: the condition of the rule for \<open>Inconsistent\<close>.\<close>
definition is_inconsistent :: "thresholds \<Rightarrow> status_inputs \<Rightarrow> bool" where
  "is_inconsistent th i = (si_rate i \<ge> poor_rate th \<and> si_gap i \<ge> inconsistent_gap th)"

text \<open>Modelled from the spec: the decision table of the status classification, in the
  order of section 4.2.\<close>
definition decision_table :: "thresholds \<Rightarrow> ((status_inputs \<Rightarrow> bool) \<times> Status) list" where
  "decision_table th =
     [(\<lambda>i. si_rate i = 0, NonReporter),
      (\<lambda>i. si_rate i < very_poor_rate th, VeryPoor),
      (\<lambda>i. si_rate i < poor_rate th, Poor),
      (\<lambda>i. is_inconsistent th i, Inconsistent),
      (\<lambda>i. si_rate i \<ge> poor_rate th \<and> si_hours i \<ge> good_min_hours th
            \<and> \<not> is_inconsistent th i, Good),
      (\<lambda>i. si_rate i \<ge> excellent_rate th
            \<and> excellent_hours_lo th \<le> si_hours i \<and> si_hours i \<le> excellent_hours_hi th
            \<and> si_gap i \<le> excellent_max_gap th, Excellent)]"

text \<open>Modelled from the spec: first match wins.\<close>
fun first_match :: "(('a \<Rightarrow> bool) \<times> 'b) list \<Rightarrow> 'a \<Rightarrow> 'b option" where
  "first_match [] i = None"
| "first_match ((p, s) # rules) i = (if p i then Some s else first_match rules i)"

text \<open>Modelled from the spec: the classification; an employee that no rule matches is
  \<open>Good\<close>.\<close>
definition classify :: "thresholds \<Rightarrow> status_inputs \<Rightarrow> Status" where
  "classify th i = (case first_match (decision_table th) i of Some s \<Rightarrow> s | None \<Rightarrow> Good)"

text \<open>The list the filter panel of the front end offers (\<^verbatim>\<open>availableStatuses\<close>).\<close>
definition availableStatuses :: "string list" where
  "availableStatuses =
     [''Excellent'', ''Good'', ''Inconsistent'', ''Poor'', ''Very Poor'', ''Non-Reporter'']"

fun status_label :: "Status \<Rightarrow> string" where
  "status_label NonReporter = ''Non-Reporter''"
| "status_label VeryPoor = ''Very Poor''"
| "status_label Poor = ''Poor''"
| "status_label Inconsistent = ''Inconsistent''"
| "status_label Good = ''Good''"
| "status_label Excellent = ''Excellent''"


section \<open>JavaScript values and strings\<close>

text \<open>
  The front end and the Apps Script collector handle values that arrive as JSON, whatever
  the TypeScript interfaces say. A value is modelled with its dynamic type. A number is
  \<open>JNum x\<close> for the double whose exact value is the real \<open>x\<close>, \<open>JNaN\<close>, or \<open>JInf b\<close> for
  the infinity of sign \<open>b\<close> (true for the positive one). The rounding of a real to the
  nearest double is a parameter of the functions that need it: it gives \<open>None\<close> when the
  result is an infinity. Strings are byte strings, so that the operations on characters
  below are those of JavaScript on ASCII text.
\<close>

datatype jsval =
    JUndefined
  | JNull
  | JBool bool
  | JNum real
  | JNaN
  | JInf bool
  | JStr string
  | JArr "jsval list"
  | JObj "(string \<times> jsval) list"

datatype api_call =
    GetActiveSpreadsheet | GetSheetByName | InsertSheet | AppendHeader | FormatHeader
  | AppendRow | GetLastRow | WrapCell | RowColor | TimestampFormat | DateFormat | GetUrl

datatype js_error = TypeError | SyntaxError | ApiError api_call

text \<open>The truthiness that \<^verbatim>\<open>||\<close>, \<^verbatim>\<open>&&\<close> and \<^verbatim>\<open>!\<close> test.\<close>
fun truthy :: "jsval \<Rightarrow> bool" where
  "truthy JUndefined = False"
| "truthy JNull = False"
| "truthy (JBool b) = b"
| "truthy (JNum x) = (x \<noteq> 0)"
| "truthy JNaN = False"
| "truthy (JInf b) = True"
| "truthy (JStr s) = (s \<noteq> [])"
| "truthy (JArr xs) = True"
| "truthy (JObj ps) = True"

text \<open>\<^verbatim>\<open>a || b\<close>\<close>
definition js_or :: "jsval \<Rightarrow> jsval \<Rightarrow> jsval" where
  "js_or a b = (if truthy a then a else b)"

text \<open>\<^verbatim>\<open>typeof v === 'number'\<close>\<close>
fun typeof_number :: "jsval \<Rightarrow> bool" where
  "typeof_number (JNum x) = True"
| "typeof_number JNaN = True"
| "typeof_number (JInf b) = True"
| "typeof_number v = False"

text \<open>The number that a real rounds to.\<close>
definition number_value :: "(real \<Rightarrow> real option) \<Rightarrow> real \<Rightarrow> jsval" where
  "number_value dbl x = (case dbl x of Some d \<Rightarrow> JNum d | None \<Rightarrow> JInf (0 < x))"

text \<open>Reading a property: of \<^verbatim>\<open>undefined\<close> and \<^verbatim>\<open>null\<close> it throws a TypeError, of an object
  it gives the value or \<^verbatim>\<open>undefined\<close>. The properties read by the code modelled here are
  data fields, which primitives and arrays do not have.\<close>
fun get_prop :: "jsval \<Rightarrow> string \<Rightarrow> js_error + jsval" where
  "get_prop JUndefined k = Inl TypeError"
| "get_prop JNull k = Inl TypeError"
| "get_prop (JObj ps) k = (case map_of ps k of Some v \<Rightarrow> Inr v | None \<Rightarrow> Inr JUndefined)"
| "get_prop v k = Inr JUndefined"

definition join :: "string \<Rightarrow> string list \<Rightarrow> string" where
  "join sep xs = (case xs of [] \<Rightarrow> [] | y # ys \<Rightarrow> foldl (\<lambda>acc s. acc @ sep @ s) y ys)"

definition bind_err :: "'e + 'a \<Rightarrow> ('a \<Rightarrow> 'e + 'b) \<Rightarrow> 'e + 'b" where
  "bind_err m f = (case m of Inl e \<Rightarrow> Inl e | Inr v \<Rightarrow> f v)"

text \<open>
  The conversion to a string of a template literal. The digits of a finite number are
  those of \<^verbatim>\<open>Number.prototype.toString\<close>, a parameter. An array is the texts of its
  elements joined by commas, \<^verbatim>\<open>null\<close> and \<^verbatim>\<open>undefined\<close> being empty. An object that arrived
  as data has no methods of its own: it prints as \<^verbatim>\<open>[object Object]\<close> through the inherited
  \<^verbatim>\<open>toString\<close>, unless a property of its own named \<^verbatim>\<open>toString\<close> hides that method; then
  neither it nor \<^verbatim>\<open>valueOf\<close> gives a primitive value and the conversion throws a TypeError.
\<close>
fun js_ToString :: "(real \<Rightarrow> string) \<Rightarrow> jsval \<Rightarrow> js_error + string"
  and elements_text :: "(real \<Rightarrow> string) \<Rightarrow> jsval list \<Rightarrow> js_error + string list" where
  "js_ToString ns JUndefined = Inr ''undefined''"
| "js_ToString ns JNull = Inr ''null''"
| "js_ToString ns (JBool b) = Inr (if b then ''true'' else ''false'')"
| "js_ToString ns (JNum x) = Inr (ns x)"
| "js_ToString ns JNaN = Inr ''NaN''"
| "js_ToString ns (JInf b) = Inr (if b then ''Infinity'' else ''-Infinity'')"
| "js_ToString ns (JStr s) = Inr s"
| "js_ToString ns (JArr xs) =
     (case elements_text ns xs of Inl e \<Rightarrow> Inl e | Inr ss \<Rightarrow> Inr (join '','' ss))"
| "js_ToString ns (JObj ps) =
     (if map_of ps ''toString'' = None then Inr ''[object Object]'' else Inl TypeError)"
| "elements_text ns [] = Inr []"
| "elements_text ns (x # xs) =
     (case (if x = JUndefined \<or> x = JNull then Inr [] else js_ToString ns x) of
        Inl e \<Rightarrow> Inl e
      | Inr s \<Rightarrow> (case elements_text ns xs of Inl e \<Rightarrow> Inl e | Inr ss \<Rightarrow> Inr (s # ss)))"

text \<open>The values whose conversion to a string does not throw: no object with a property
  of its own named \<^verbatim>\<open>toString\<close>, also not among the elements of an array.\<close>
fun printable :: "jsval \<Rightarrow> bool"
  and all_printable :: "jsval list \<Rightarrow> bool" where
  "printable (JObj ps) = (map_of ps ''toString'' = None)"
| "printable (JArr xs) = all_printable xs"
| "printable JUndefined = True"
| "printable JNull = True"
| "printable (JBool b) = True"
| "printable (JNum x) = True"
| "printable JNaN = True"
| "printable (JInf b) = True"
| "printable (JStr s) = True"
| "all_printable [] = True"
| "all_printable (x # xs) = (printable x \<and> all_printable xs)"

text \<open>
  The conversion to a number of the arithmetic operators. The value of a string is that of
  the language's \<^verbatim>\<open>StringToNumber\<close>, a parameter. An array or an object is converted to a
  string first (\<^verbatim>\<open>valueOf\<close> gives no primitive value), which throws as above.
\<close>
fun js_ToNumber :: "(real \<Rightarrow> string) \<Rightarrow> (string \<Rightarrow> jsval) \<Rightarrow> jsval \<Rightarrow> js_error + jsval" where
  "js_ToNumber ns sn JUndefined = Inr JNaN"
| "js_ToNumber ns sn JNull = Inr (JNum 0)"
| "js_ToNumber ns sn (JBool b) = Inr (JNum (if b then 1 else 0))"
| "js_ToNumber ns sn (JNum x) = Inr (JNum x)"
| "js_ToNumber ns sn JNaN = Inr JNaN"
| "js_ToNumber ns sn (JInf b) = Inr (JInf b)"
| "js_ToNumber ns sn (JStr s) = Inr (sn s)"
| "js_ToNumber ns sn v = (case js_ToString ns v of Inl e \<Rightarrow> Inl e | Inr s \<Rightarrow> Inr (sn s))"

subsection \<open>Strings\<close>

definition toLowerCase_char :: "char \<Rightarrow> char" where
  "toLowerCase_char c =
     (case map_of (zip ''ABCDEFGHIJKLMNOPQRSTUVWXYZ'' ''abcdefghijklmnopqrstuvwxyz'') c of
        Some l \<Rightarrow> l | None \<Rightarrow> c)"

definition toLowerCase :: "string \<Rightarrow> string" where
  "toLowerCase s = map toLowerCase_char s"

fun startsWith :: "string \<Rightarrow> string \<Rightarrow> bool" where
  "startsWith s [] = True"
| "startsWith [] (p # ps) = False"
| "startsWith (c # cs) (p # ps) = (c = p \<and> startsWith cs ps)"

text \<open>\<^verbatim>\<open>s.includes(p)\<close>\<close>
fun js_includes :: "string \<Rightarrow> string \<Rightarrow> bool" where
  "js_includes [] p = (p = [])"
| "js_includes (c # cs) p = (startsWith (c # cs) p \<or> js_includes cs p)"

definition is_digit :: "char \<Rightarrow> bool" where
  "is_digit c = (c \<in> set ''0123456789'')"

definition digit_val :: "char \<Rightarrow> nat" where
  "digit_val c = (case map_of (zip ''0123456789'' [0, 1, 2, 3, 4, 5, 6, 7, 8, 9]) c of
                    Some d \<Rightarrow> d | None \<Rightarrow> 0)"

definition digits_val :: "string \<Rightarrow> nat" where
  "digits_val s = foldl (\<lambda>acc c. 10 * acc + digit_val c) 0 s"

text \<open>The white space of \<^verbatim>\<open>\s\<close> within ASCII: space, tab, line feed, vertical tab, form feed
  and carriage return.\<close>
definition is_space :: "char \<Rightarrow> bool" where
  "is_space c = (c \<in> set [CHR '' '', CHR 0x09, CHR 0x0A, CHR 0x0B, CHR 0x0C, CHR 0x0D])"

text \<open>\<^verbatim>\<open>String(val).replace(/[^\d.-]/g, '')\<close>\<close>
definition strip_non_numeric :: "string \<Rightarrow> string" where
  "strip_non_numeric s = filter (\<lambda>c. is_digit c \<or> c = CHR ''.'' \<or> c = CHR ''-'') s"

text \<open>
  \<^verbatim>\<open>Number(cleaned)\<close> on a string of digits, dots and minus signs, which is all that the
  replacement above leaves: the empty string is 0; otherwise an optional minus sign is
  followed by digits, digits with a dot and maybe digits after it, or a dot and digits,
  and the result is the double nearest to that decimal number. Anything else is \<open>NaN\<close>.
\<close>
definition unsigned_decimal :: "string \<Rightarrow> real option" where
  "unsigned_decimal s =
     (let ip = takeWhile is_digit s; rest = dropWhile is_digit s in
      (case rest of
         [] \<Rightarrow> if ip = [] then None else Some (real (digits_val ip))
       | c # fp \<Rightarrow>
           if c = CHR ''.'' \<and> list_all is_digit fp \<and> (ip \<noteq> [] \<or> fp \<noteq> [])
           then Some (real (digits_val ip) + real (digits_val fp) / 10 ^ length fp)
           else None))"

definition decimal_literal :: "string \<Rightarrow> real option" where
  "decimal_literal s =
     (case s of
        [] \<Rightarrow> None
      | c # cs \<Rightarrow> if c = CHR ''-'' then map_option uminus (unsigned_decimal cs)
                  else unsigned_decimal s)"

definition Number_cleaned :: "(real \<Rightarrow> real option) \<Rightarrow> string \<Rightarrow> jsval" where
  "Number_cleaned dbl s =
     (if s = [] then JNum 0
      else (case decimal_literal s of None \<Rightarrow> JNaN | Some x \<Rightarrow> number_value dbl x))"

section \<open>Chart descriptors: \<^verbatim>\<open>MessageBubble\<close> and \<^verbatim>\<open>DynamicChart\<close>\<close>

text \<open>
  A field of a descriptor is optional in the model where the code tests its presence:
  the chart type (\<^verbatim>\<open>chartData.chartType &&\<close>), the title, the labels and datasets
  (\<^verbatim>\<open>!chartData.labels || !chartData.datasets\<close>), the data of a dataset
  (\<^verbatim>\<open>dataset.data || []\<close>) and its border width. Colours and the callbacks of the chart
  library are presentation and are left out.
\<close>

record dataset =
  ds_label :: string
  ds_data :: "jsval list option"
  ds_borderWidth :: "real option"

record ChartData =
  chartType :: "string option"
  chartTitle :: "string option"
  labels :: "string list option"
  datasets :: "dataset list option"

record status_count =
  sd_status :: string
  sd_count :: real

record project_hours =
  pd_project :: string
  pd_hours :: real

record submitter =
  ts_name :: string
  ts_rate :: real

record contributor =
  th_name :: string
  th_hours :: real

record comprehensiveCharts =
  status_distribution :: "status_count list option"
  project_distribution :: "project_hours list option"
  top_submitters :: "submitter list option"
  top_hours :: "contributor list option"

datatype sender = user | bot

record Message =
  msg_sender :: sender
  msg_text :: string
  msg_chartData :: "ChartData option"
  msg_comprehensiveCharts :: "comprehensiveCharts option"

text \<open>\<^verbatim>\<open>xs && xs.length > 0\<close>\<close>
definition non_empty :: "'a list option \<Rightarrow> bool" where
  "non_empty xs = (case xs of None \<Rightarrow> False | Some ys \<Rightarrow> ys \<noteq> [])"

definition or_empty :: "'a list option \<Rightarrow> 'a list" where
  "or_empty xs = (case xs of None \<Rightarrow> [] | Some ys \<Rightarrow> ys)"

definition one_dataset_chart ::
  "string \<Rightarrow> string \<Rightarrow> string list \<Rightarrow> string \<Rightarrow> real list \<Rightarrow> ChartData" where
  "one_dataset_chart ty title ls lab vals =
     \<lparr>chartType = Some ty, chartTitle = Some title, labels = Some ls,
      datasets = Some [\<lparr>ds_label = lab, ds_data = Some (map JNum vals), ds_borderWidth = None\<rparr>]\<rparr>"

text \<open>\<^verbatim>\<open>emp.rate || 0\<close> on a number\<close>
definition or_zero :: "real \<Rightarrow> real" where
  "or_zero x = (if x \<noteq> 0 then x else 0)"

text \<open>\<^verbatim>\<open>getChartFromComprehensiveData\<close> of \<^verbatim>\<open>MessageBubble.tsx\<close>: the chart derived from the
  comprehensive charts of a message by the words of its text; \<open>None\<close> is \<^verbatim>\<open>null\<close>.\<close>
definition getChartFromComprehensiveData :: "Message \<Rightarrow> ChartData option" where
  "getChartFromComprehensiveData message =
     (case msg_comprehensiveCharts message of
        None \<Rightarrow> None
      | Some charts \<Rightarrow>
          (let low = toLowerCase (msg_text message) in
           if (js_includes low ''status'' \<or> js_includes low ''breakdown'')
              \<and> non_empty (status_distribution charts)
           then Some (one_dataset_chart ''doughnut'' ''Team Status Distribution''
                  (map sd_status (or_empty (status_distribution charts))) ''Employees''
                  (map sd_count (or_empty (status_distribution charts))))
           else if js_includes low ''project''
              \<and> (js_includes low ''distribution'' \<or> js_includes low ''share'')
              \<and> non_empty (project_distribution charts)
           then Some (one_dataset_chart ''doughnut'' ''Project Workload Distribution''
                  (map pd_project (or_empty (project_distribution charts))) ''Hours''
                  (map pd_hours (or_empty (project_distribution charts))))
           else if js_includes low ''lyell'' \<and> non_empty (top_submitters charts)
           then Some (one_dataset_chart ''bar'' ''Top Lyell Contributors''
                  (map ts_name (take 10 (or_empty (top_submitters charts)))) ''Hours''
                  (map (\<lambda>emp. or_zero (ts_rate emp)) (take 10 (or_empty (top_submitters charts)))))
           else if js_includes low ''performance'' \<and> non_empty (top_hours charts)
           then Some (one_dataset_chart ''bar'' ''Employee Performance''
                  (map th_name (take 10 (or_empty (top_hours charts)))) ''Average Daily Hours''
                  (map (\<lambda>emp. or_zero (th_hours emp)) (take 10 (or_empty (top_hours charts)))))
           else None))"

text \<open>
  The match of \<^verbatim>\<open>/```json\s*([\s\S]*?)\s*```/\<close>, its first group. The first occurrence of the
  opening fence decides: a closing fence after a later occurrence is one after the first
  as well. The greedy white space after the opening fence contains no fence, so it is taken
  whole, and the lazy group is the shortest text after which white space and a fence follow.
\<close>
fun find_after :: "string \<Rightarrow> string \<Rightarrow> string option" where
  "find_after needle [] = (if needle = [] then Some [] else None)"
| "find_after needle (c # cs) =
     (if startsWith (c # cs) needle then Some (drop (length needle) (c # cs))
      else find_after needle cs)"

fun lazy_capture :: "string \<Rightarrow> string option" where
  "lazy_capture [] = None"
| "lazy_capture (c # cs) =
     (if startsWith (dropWhile is_space (c # cs)) ''```'' then Some []
      else map_option ((#) c) (lazy_capture cs))"

definition json_block :: "string \<Rightarrow> string option" where
  "json_block s =
     (case find_after ''```json'' s of
        None \<Rightarrow> None
      | Some r \<Rightarrow> lazy_capture (dropWhile is_space r))"

text \<open>The descriptor embedded in the text of a message, priority 3 of
  \<^verbatim>\<open>extractedChartData\<close>. \<^verbatim>\<open>JSON.parse\<close> is a parameter: it throws a syntax error, or gives
  \<^verbatim>\<open>null\<close> (\<open>Inr None\<close>), the read of whose chart type throws, or gives a value read as a
  descriptor. Whatever is thrown is caught and no chart results.\<close>
definition embedded_chart :: "(string \<Rightarrow> js_error + ChartData option) \<Rightarrow> Message \<Rightarrow> ChartData option" where
  "embedded_chart JSON_parse message =
     (if msg_sender message \<noteq> bot \<or> \<not> js_includes (msg_text message) ''```json'' then None
      else (case json_block (msg_text message) of
              None \<Rightarrow> None
            | Some body \<Rightarrow>
                if body = [] then None
                else (case JSON_parse body of
                        Inl err \<Rightarrow> None
                      | Inr None \<Rightarrow> None
                      | Inr (Some chartData) \<Rightarrow>
                          (case chartType chartData of
                             None \<Rightarrow> None
                           | Some ty \<Rightarrow> if ty \<noteq> [] \<and> ty \<noteq> ''none'' then Some chartData
                                        else None))))"

text \<open>The deterministic fallback: the comprehensive charts first, the embedded JSON next.\<close>
definition fallback_chart :: "(string \<Rightarrow> js_error + ChartData option) \<Rightarrow> Message \<Rightarrow> ChartData option" where
  "fallback_chart JSON_parse message =
     (case getChartFromComprehensiveData message of
        Some comprehensiveChart \<Rightarrow> Some comprehensiveChart
      | None \<Rightarrow> embedded_chart JSON_parse message)"

text \<open>\<^verbatim>\<open>extractedChartData\<close> of \<^verbatim>\<open>MessageBubble.tsx\<close>: the explicit descriptor of the message
  when there is one and its type is not \<^verbatim>\<open>'none'\<close>, the fallback otherwise.\<close>
definition extractedChartData :: "(string \<Rightarrow> js_error + ChartData option) \<Rightarrow> Message \<Rightarrow> ChartData option" where
  "extractedChartData JSON_parse message =
     (case msg_chartData message of
        Some chartData \<Rightarrow>
          if chartType chartData \<noteq> Some ''none'' then Some chartData
          else fallback_chart JSON_parse message
      | None \<Rightarrow> fallback_chart JSON_parse message)"

subsection \<open>\<^verbatim>\<open>DynamicChart\<close>\<close>

datatype component = Bar | Line | Pie | Doughnut | Radar | Scatter | Bubble | PolarArea

record chart_dataset =
  cd_label :: string
  cd_data :: "jsval list"
  cd_borderWidth :: real
  cd_pointRadius :: "real option"

record chart_config =
  cfg_labels :: "string list"
  cfg_datasets :: "chart_dataset list"

datatype render = RenderNothing | RenderChart component chart_config

text \<open>The validation of \<^verbatim>\<open>DynamicChart\<close>: labels and datasets present, at least one dataset,
  and for a scatter chart a dataset with data.\<close>
definition valid_chart :: "ChartData \<Rightarrow> bool" where
  "valid_chart chartData =
     (labels chartData \<noteq> None \<and> non_empty (datasets chartData)
      \<and> (if chartType chartData = Some ''scatter''
         then list_ex (\<lambda>d. non_empty (ds_data d)) (or_empty (datasets chartData))
         else True))"

text \<open>The coercion of one entry of a dataset (\<^verbatim>\<open>numericData\<close>): a number is kept, a
  string becomes \<^verbatim>\<open>Number(cleaned) || 0\<close>, anything else 0.\<close>
definition numeric_entry :: "(real \<Rightarrow> real option) \<Rightarrow> jsval \<Rightarrow> jsval" where
  "numeric_entry dbl val =
     (if typeof_number val then val
      else (case val of
              JStr s \<Rightarrow> js_or (Number_cleaned dbl (strip_non_numeric s)) (JNum 0)
            | _ \<Rightarrow> JNum 0))"

text \<open>One dataset of \<^verbatim>\<open>chartConfig\<close>.\<close>
definition prepare_dataset :: "(real \<Rightarrow> real option) \<Rightarrow> string \<Rightarrow> dataset \<Rightarrow> chart_dataset" where
  "prepare_dataset dbl ty d =
     (if ty = ''scatter'' \<or> ty = ''bubble''
      then \<lparr>cd_label = ds_label d, cd_data = or_empty (ds_data d), cd_borderWidth = 2,
            cd_pointRadius = (if ty = ''bubble'' then None else Some 6)\<rparr>
      else \<lparr>cd_label = ds_label d, cd_data = map (numeric_entry dbl) (or_empty (ds_data d)),
            cd_borderWidth =
              (if ty = ''radar'' then 2
               else (case ds_borderWidth d of None \<Rightarrow> 0 | Some w \<Rightarrow> or_zero w)),
            cd_pointRadius = Some (if ty = ''line'' \<or> ty = ''radar'' then 4 else 0)\<rparr>)"

text \<open>The length check of \<^verbatim>\<open>renderChart\<close> on one dataset: padded with zeros or cut to the
  number of labels.\<close>
definition fit_to_labels :: "nat \<Rightarrow> chart_dataset \<Rightarrow> chart_dataset" where
  "fit_to_labels labelsLen d =
     (let dataLen = length (cd_data d) in
      if dataLen < labelsLen
      then d\<lparr>cd_data := cd_data d @ replicate (labelsLen - dataLen) (JNum 0)\<rparr>
      else if dataLen > labelsLen then d\<lparr>cd_data := take labelsLen (cd_data d)\<rparr>
      else d)"

definition chart_component :: "string \<Rightarrow> component" where
  "chart_component ty =
     (case map_of [(''bar'', Bar), (''horizontalBar'', Bar), (''line'', Line), (''pie'', Pie),
                   (''doughnut'', Doughnut), (''radar'', Radar), (''scatter'', Scatter),
                   (''bubble'', Bubble), (''polarArea'', PolarArea), (''none'', Bar)] ty of
        Some c \<Rightarrow> c | None \<Rightarrow> Bar)"

definition renderChart :: "string \<Rightarrow> chart_config \<Rightarrow> render" where
  "renderChart ty chartConfig =
     RenderChart (chart_component ty)
       (if cfg_datasets chartConfig \<noteq> [] \<and> ty \<noteq> ''scatter''
        then chartConfig\<lparr>cfg_datasets :=
               map (fit_to_labels (length (cfg_labels chartConfig))) (cfg_datasets chartConfig)\<rparr>
        else chartConfig)"

text \<open>\<^verbatim>\<open>DynamicChart\<close>: nothing is rendered for no descriptor, for the type \<^verbatim>\<open>'none'\<close> and for
  a descriptor that fails the validation. A descriptor that passes the validation makes the
  component throw when it has no chart type, at \<^verbatim>\<open>chartData.chartType.toUpperCase()\<close>, or
  when its first dataset has no data, at \<^verbatim>\<open>chartData.datasets[0]?.data.length\<close>.\<close>
definition DynamicChart :: "(real \<Rightarrow> real option) \<Rightarrow> ChartData option \<Rightarrow> js_error + render" where
  "DynamicChart dbl props =
     (case props of
        None \<Rightarrow> Inr RenderNothing
      | Some chartData \<Rightarrow>
          if chartType chartData = Some ''none'' then Inr RenderNothing
          else if \<not> valid_chart chartData then Inr RenderNothing
          else (case chartType chartData of
                  None \<Rightarrow> Inl TypeError
                | Some ty \<Rightarrow>
                    (case or_empty (datasets chartData) of
                       [] \<Rightarrow> Inr RenderNothing
                     | d # ds \<Rightarrow>
                         if ds_data d = None then Inl TypeError
                         else Inr (renderChart ty
                                \<lparr>cfg_labels = or_empty (labels chartData),
                                 cfg_datasets = map (prepare_dataset dbl ty) (d # ds)\<rparr>))))"

text \<open>What a message bubble shows below its text: the chart of the extracted descriptor
  for a message of the bot, nothing otherwise.\<close>
definition bubble_chart ::
  "(real \<Rightarrow> real option) \<Rightarrow> (string \<Rightarrow> js_error + ChartData option) \<Rightarrow> Message \<Rightarrow> js_error + render" where
  "bubble_chart dbl JSON_parse message =
     (case extractedChartData JSON_parse message of
        None \<Rightarrow> Inr RenderNothing
      | Some chartData \<Rightarrow>
          if msg_sender message = bot then DynamicChart dbl (Some chartData)
          else Inr RenderNothing)"

text \<open>What the renderer needs of a descriptor: a chart type other than \<^verbatim>\<open>'none'\<close>, labels,
  at least one dataset, and in every dataset as many numbers as there are labels.\<close>
definition well_formed :: "ChartData \<Rightarrow> bool" where
  "well_formed chartData =
     (case (chartType chartData, labels chartData, datasets chartData) of
        (Some ty, Some ls, Some dss) \<Rightarrow>
          ty \<noteq> ''none'' \<and> ls \<noteq> [] \<and> dss \<noteq> []
          \<and> list_all (\<lambda>d. case ds_data d of
                               None \<Rightarrow> False
                             | Some vals \<Rightarrow> length vals = length ls \<and> list_all typeof_number vals)
               dss
      | _ \<Rightarrow> False)"


section \<open>The Apps Script collector: \<^verbatim>\<open>saveToSheet\<close>\<close>

text \<open>
  The spreadsheet is the state: the rows of each sheet, by name. Formatting changes no row
  and is not recorded, but each call of the spreadsheet service may throw, which the
  environment decides. The clock, the two conversions between numbers and strings and the
  rounding of a real to a double are parameters as well.
\<close>

datatype cell = CDate nat | CVal jsval

record spreadsheet =
  sheets :: "string \<rightharpoonup> cell list list"
  url :: string

record gas_env =
  now :: nat
  now_iso :: string
  today_iso :: string
  fails :: "api_call \<Rightarrow> bool"
  num_str :: "real \<Rightarrow> string"
  str_num :: "string \<Rightarrow> jsval"
  to_double :: "real \<Rightarrow> real option"

record save_result =
  r_timestamp :: string
  r_totalTasks :: nat
  r_totalHours :: jsval
  r_sheetName :: string
  r_sheetUrl :: string

datatype response = Success save_result | Failure js_error

definition SHEET_NAME :: string where
  "SHEET_NAME = ''daily_reports_v2''"

definition header_row :: "cell list" where
  "header_row = map (\<lambda>s. CVal (JStr s))
     [''Timestamp'', ''Email_Address'', ''Name'', ''Date'', ''Tasks_Completed'', ''Time_Spent'']"

text \<open>The sheet is created with its header when it does not exist. What was done before a
  call throws stays done.\<close>
definition ensure_sheet :: "gas_env \<Rightarrow> spreadsheet \<Rightarrow> spreadsheet \<times> (js_error + unit)" where
  "ensure_sheet env ss =
     (if fails env GetActiveSpreadsheet then (ss, Inl (ApiError GetActiveSpreadsheet))
      else if fails env GetSheetByName then (ss, Inl (ApiError GetSheetByName))
      else (case sheets ss SHEET_NAME of
              Some rows \<Rightarrow> (ss, Inr ())
            | None \<Rightarrow>
                if fails env InsertSheet then (ss, Inl (ApiError InsertSheet))
                else (let ss1 = ss\<lparr>sheets := (sheets ss)(SHEET_NAME \<mapsto> [])\<rparr> in
                  if fails env AppendHeader then (ss1, Inl (ApiError AppendHeader))
                  else (let ss2 = ss\<lparr>sheets := (sheets ss)(SHEET_NAME \<mapsto> [header_row])\<rparr> in
                    if fails env FormatHeader then (ss2, Inl (ApiError FormatHeader))
                    else (ss2, Inr ())))))"

text \<open>\<^verbatim>\<open>`[${task.category}] ${task.description} (${task.hours}h)`\<close>\<close>
definition format_task :: "(real \<Rightarrow> string) \<Rightarrow> jsval \<Rightarrow> js_error + string" where
  "format_task ns task =
     bind_err (get_prop task ''category'') (\<lambda>c.
     bind_err (js_ToString ns c) (\<lambda>cs.
     bind_err (get_prop task ''description'') (\<lambda>d.
     bind_err (js_ToString ns d) (\<lambda>ds.
     bind_err (get_prop task ''hours'') (\<lambda>h.
     bind_err (js_ToString ns h) (\<lambda>hs.
       Inr (''['' @ cs @ ''] '' @ ds @ '' ('' @ hs @ ''h)'')))))))"

fun format_tasks :: "(real \<Rightarrow> string) \<Rightarrow> jsval list \<Rightarrow> js_error + string list" where
  "format_tasks ns [] = Inr []"
| "format_tasks ns (t # ts) =
     bind_err (format_task ns t) (\<lambda>l.
     bind_err (format_tasks ns ts) (\<lambda>ls. Inr (l # ls)))"

text \<open>\<^verbatim>\<open>x % 1\<close>, with the sign of \<open>x\<close> and exact on doubles, and \<^verbatim>\<open>Math.round\<close>, which rounds
  a half upwards.\<close>
definition js_rem1 :: "real \<Rightarrow> real" where
  "js_rem1 x = (if x \<ge> 0 then x - of_int \<lfloor>x\<rfloor> else x - of_int \<lceil>x\<rceil>)"

definition js_round :: "real \<Rightarrow> int" where
  "js_round y = \<lfloor>y + 1 / 2\<rfloor>"

text \<open>\<^verbatim>\<open>Math.round((totalHours % 1) * 60)\<close> in a template literal: the product is rounded to
  a double before \<^verbatim>\<open>Math.round\<close> takes it.\<close>
definition minutes_text :: "gas_env \<Rightarrow> real \<Rightarrow> string" where
  "minutes_text env x =
     (case to_double env (js_rem1 x * 60) of
        Some y \<Rightarrow> num_str env (of_int (js_round y))
      | None \<Rightarrow> if 0 < js_rem1 x then ''Infinity'' else ''-Infinity'')"

text \<open>\<^verbatim>\<open>timeSpent\<close>: \<^verbatim>\<open>"X hrs"\<close> for whole hours, \<^verbatim>\<open>"X hrs Y mins"\<close> otherwise. The conversion of
  the total hours to a number may throw. A value that is \<^verbatim>\<open>NaN\<close> or infinite after
  conversion is never equal to 0 modulo 1, and its minutes print as \<^verbatim>\<open>NaN\<close>.\<close>
definition time_spent :: "gas_env \<Rightarrow> jsval \<Rightarrow> js_error + string" where
  "time_spent env totalHours =
     bind_err (js_ToNumber (num_str env) (str_num env) totalHours) (\<lambda>n.
       (case n of
          JNum x \<Rightarrow>
            if js_rem1 x = 0
            then bind_err (js_ToString (num_str env) totalHours) (\<lambda>s. Inr (s @ '' hrs''))
            else Inr (num_str env (of_int \<lfloor>x\<rfloor>) @ '' hrs '' @ minutes_text env x @ '' mins'')
        | JInf b \<Rightarrow> Inr ((if b then ''Infinity'' else ''-Infinity'') @ '' hrs NaN mins'')
        | _ \<Rightarrow> Inr ''NaN hrs NaN mins''))"

text \<open>The row of a submission, with the number of its tasks and its total hours for the
  response. \<^verbatim>\<open>tasks.map\<close> exists on an array only.\<close>
definition build_row :: "gas_env \<Rightarrow> jsval \<Rightarrow> js_error + (cell list \<times> nat \<times> jsval)" where
  "build_row env data =
     bind_err (get_prop data ''tasks'') (\<lambda>t.
     bind_err (get_prop data ''totalHours'') (\<lambda>h.
     bind_err (get_prop data ''reportDate'') (\<lambda>rd.
       let tasks = js_or t (JArr []);
           totalHours = js_or h (JNum 0);
           formattedDate = js_or rd (JStr (today_iso env))
       in (case tasks of
             JArr ts \<Rightarrow>
               bind_err (format_tasks (num_str env) ts) (\<lambda>lines.
               bind_err (time_spent env totalHours) (\<lambda>timeSpent.
               bind_err (get_prop data ''email'') (\<lambda>email.
               bind_err (get_prop data ''employeeName'') (\<lambda>employeeName.
                 Inr ([CDate (now env),
                       CVal (js_or email (JStr [])),
                       CVal (js_or employeeName (JStr [])),
                       CVal formattedDate,
                       CVal (JStr (join [CHR 0x0A] lines)),
                       CVal (JStr timeSpent)],
                      length ts, totalHours)))))
           | _ \<Rightarrow> Inl TypeError))))"

text \<open>The body of the \<^verbatim>\<open>try\<close> block of \<^verbatim>\<open>saveToSheet\<close>. The four formatting blocks after the
  row is appended catch what they throw and change no row.\<close>
definition saveToSheet_try :: "gas_env \<Rightarrow> jsval \<Rightarrow> spreadsheet \<Rightarrow> spreadsheet \<times> (js_error + save_result)" where
  "saveToSheet_try env data ss =
     (case ensure_sheet env ss of
        (ss1, Inl e) \<Rightarrow> (ss1, Inl e)
      | (ss1, Inr u) \<Rightarrow>
          (case build_row env data of
             Inl e \<Rightarrow> (ss1, Inl e)
           | Inr (rowData, totalTasks, totalHours) \<Rightarrow>
               if fails env AppendRow then (ss1, Inl (ApiError AppendRow))
               else (let ss2 = ss1\<lparr>sheets := (sheets ss1)(SHEET_NAME \<mapsto>
                                 or_empty (sheets ss1 SHEET_NAME) @ [rowData])\<rparr> in
                 if fails env GetLastRow then (ss2, Inl (ApiError GetLastRow))
                 else if fails env GetUrl then (ss2, Inl (ApiError GetUrl))
                 else (ss2, Inr \<lparr>r_timestamp = now_iso env, r_totalTasks = totalTasks,
                                 r_totalHours = totalHours, r_sheetName = SHEET_NAME,
                                 r_sheetUrl = url ss2\<rparr>))))"

text \<open>\<^verbatim>\<open>saveToSheet\<close>: whatever the body throws is caught and reported in the response.\<close>
definition saveToSheet :: "gas_env \<Rightarrow> jsval \<Rightarrow> spreadsheet \<Rightarrow> spreadsheet \<times> response" where
  "saveToSheet env data ss =
     (case saveToSheet_try env data ss of
        (ss', Inl error) \<Rightarrow> (ss', Failure error)
      | (ss', Inr result) \<Rightarrow> (ss', Success result))"

text \<open>A field is missing when it is absent or holds a value that \<^verbatim>\<open>||\<close> replaces.\<close>
definition missing :: "jsval \<Rightarrow> string \<Rightarrow> bool" where
  "missing data k = (case get_prop data k of Inl e \<Rightarrow> False | Inr v \<Rightarrow> \<not> truthy v)"

definition field :: "jsval \<Rightarrow> string \<Rightarrow> jsval" where
  "field data k = (case get_prop data k of Inl e \<Rightarrow> JUndefined | Inr v \<Rightarrow> v)"

text \<open>The tasks that the template literal formats without throwing: neither \<^verbatim>\<open>null\<close> nor
  \<^verbatim>\<open>undefined\<close>, with a category, a description and hours that convert to a string. The
  task lists that \<^verbatim>\<open>tasks.map\<close> formats without throwing are the arrays of such tasks.\<close>
definition task_ok :: "jsval \<Rightarrow> bool" where
  "task_ok t = (t \<noteq> JNull \<and> t \<noteq> JUndefined \<and> printable (field t ''category'')
                \<and> printable (field t ''description'') \<and> printable (field t ''hours''))"

definition task_list :: "jsval \<Rightarrow> bool" where
  "task_list v = (case v of JArr ts \<Rightarrow> list_all task_ok ts | _ \<Rightarrow> False)"

text \<open>The calls of the spreadsheet service whose exception reaches the outer \<^verbatim>\<open>catch\<close>.\<close>
definition critical_calls :: "api_call list" where
  "critical_calls = [GetActiveSpreadsheet, GetSheetByName, InsertSheet, AppendHeader,
                     FormatHeader, AppendRow, GetLastRow, GetUrl]"

definition rows_before :: "spreadsheet \<Rightarrow> cell list list" where
  "rows_before ss = (case sheets ss SHEET_NAME of None \<Rightarrow> [header_row] | Some rows \<Rightarrow> rows)"


section \<open>Quick filters: \<^verbatim>\<open>SmartSearchFilters\<close> and \<^verbatim>\<open>ChatInterface\<close>\<close>

record dateRange =
  dr_start :: "string option"
  dr_end :: "string option"

record FilterOptions =
  projects :: "string list"
  statuses :: "string list"
  dateRange :: dateRange

text \<open>The dates that the presets compute from the clock, and the milliseconds of a date
  string (\<^verbatim>\<open>new Date(s).getTime()\<close>, \<open>None\<close> for an invalid date), are parameters.\<close>
record clock =
  today :: string
  week_ago :: string
  month_start :: string
  date_ms :: "string \<Rightarrow> int option"

definition no_filters :: FilterOptions where
  "no_filters = \<lparr>projects = [], statuses = [], dateRange = \<lparr>dr_start = None, dr_end = None\<rparr>\<rparr>"

text \<open>\<^verbatim>\<open>applyQuickFilter\<close>: the filters that a preset hands to \<^verbatim>\<open>onFiltersApply\<close>. An unknown
  preset leaves them empty.\<close>
definition applyQuickFilter :: "clock \<Rightarrow> string \<Rightarrow> FilterOptions" where
  "applyQuickFilter clk type =
     (if type = ''top-performers'' then no_filters\<lparr>statuses := [''Excellent'', ''Good'']\<rparr>
      else if type = ''need-attention''
        then no_filters\<lparr>statuses := [''Poor'', ''Very Poor'', ''Non-Reporter'']\<rparr>
      else if type = ''lyell-project'' then no_filters\<lparr>projects := [''Lyell'']\<rparr>
      else if type = ''dataplatr-project'' then no_filters\<lparr>projects := [''DataPlatr'']\<rparr>
      else if type = ''this-week''
        then no_filters\<lparr>dateRange := \<lparr>dr_start = Some (week_ago clk), dr_end = Some (today clk)\<rparr>\<rparr>
      else if type = ''this-month''
        then no_filters\<lparr>dateRange := \<lparr>dr_start = Some (month_start clk), dr_end = Some (today clk)\<rparr>\<rparr>
      else no_filters)"

text \<open>The truthiness of a string or \<^verbatim>\<open>null\<close>.\<close>
definition given :: "string option \<Rightarrow> bool" where
  "given s = (case s of None \<Rightarrow> False | Some v \<Rightarrow> v \<noteq> [])"

definition str_of :: "string option \<Rightarrow> string" where
  "str_of s = (case s of None \<Rightarrow> ''null'' | Some v \<Rightarrow> v)"

text \<open>\<^verbatim>\<open>Math.floor((end.getTime() - start.getTime()) / (1000 * 60 * 60 * 24))\<close>\<close>
definition daysDiff :: "clock \<Rightarrow> string \<Rightarrow> string \<Rightarrow> int option" where
  "daysDiff clk s e =
     (case (date_ms clk s, date_ms clk e) of
        (Some a, Some b) \<Rightarrow> Some ((b - a) div 86400000)
      | _ \<Rightarrow> None)"

definition date_parts :: "FilterOptions \<Rightarrow> string list" where
  "date_parts filters =
     (let s = dr_start (dateRange filters); e = dr_end (dateRange filters) in
      if given s \<and> given e then [''from '' @ str_of s @ '' to '' @ str_of e]
      else if given s then [''since '' @ str_of s]
      else if given e then [''until '' @ str_of e]
      else [])"

text \<open>\<^verbatim>\<open>generateFilterQuery\<close> of \<^verbatim>\<open>ChatInterface.tsx\<close>.\<close>
definition generateFilterQuery :: "clock \<Rightarrow> FilterOptions \<Rightarrow> string" where
  "generateFilterQuery clk filters =
     (let hasProjects = projects filters \<noteq> [];
          hasStatuses = statuses filters \<noteq> [];
          s = dr_start (dateRange filters);
          e = dr_end (dateRange filters);
          hasDateRange = (given s \<or> given e)
      in
      if hasStatuses \<and> ''Excellent'' \<in> set (statuses filters)
         \<and> ''Good'' \<in> set (statuses filters) \<and> length (statuses filters) = 2
      then ''Show top performing employees''
      else if hasStatuses \<and> (''Poor'' \<in> set (statuses filters)
         \<or> ''Very Poor'' \<in> set (statuses filters)
         \<or> ''Non-Reporter'' \<in> set (statuses filters))
      then ''Show employees needing attention''
      else if hasProjects \<and> length (projects filters) = 1
      then ''Show '' @ hd (projects filters) @ '' project analysis''
      else if hasProjects \<and> length (projects filters) > 1
      then ''Show '' @ join '' and '' (projects filters) @ '' projects analysis''
      else if hasDateRange \<and> \<not> hasProjects \<and> \<not> hasStatuses
      then (if given s \<and> given e
            then (case daysDiff clk (str_of s) (str_of e) of
                    None \<Rightarrow> ''Show performance from '' @ str_of s @ '' to '' @ str_of e
                  | Some d \<Rightarrow>
                      if d \<le> 7 then ''Show performance for the last 7 days''
                      else if d \<le> 31 then ''Show performance for this month''
                      else ''Show performance from '' @ str_of s @ '' to '' @ str_of e)
            else if given s then ''Show performance since '' @ str_of s
            else if given e then ''Show performance until '' @ str_of e
            else [])
      else (let parts =
                  (if hasProjects
                   then [join '' and '' (projects filters) @ '' project''
                         @ (if length (projects filters) > 1 then ''s'' else [])]
                   else [])
                  @ (if hasStatuses
                     then [''employees with '' @ join '' or '' (statuses filters) @ '' status'']
                     else [])
                  @ (if hasDateRange then date_parts filters else [])
            in if parts \<noteq> [] then ''Show '' @ join '' '' parts else []))"

text \<open>\<^verbatim>\<open>handleFiltersApply\<close> of \<^verbatim>\<open>ChatInterface.tsx\<close>: the new active filters and the message
  handed to \<^verbatim>\<open>onSendMessage\<close>, if any.\<close>
definition handleFiltersApply :: "clock \<Rightarrow> FilterOptions \<Rightarrow> FilterOptions \<times> string option" where
  "handleFiltersApply clk filters =
     (let hasActiveFilters =
            (projects filters \<noteq> [] \<or> statuses filters \<noteq> []
             \<or> dr_start (dateRange filters) \<noteq> None \<or> dr_end (dateRange filters) \<noteq> None)
      in if hasActiveFilters
         then (let query = generateFilterQuery clk filters in
               if query \<noteq> [] then (filters, Some query) else (filters, None))
         else (filters, None))"

text \<open>A click on a quick filter: the preset goes through \<^verbatim>\<open>onFiltersApply\<close>, which is
  \<^verbatim>\<open>handleFiltersApply\<close>.\<close>
definition quick_filter_click :: "clock \<Rightarrow> string \<Rightarrow> FilterOptions \<times> string option" where
  "quick_filter_click clk type = handleFiltersApply clk (applyQuickFilter clk type)"


section \<open>Scenarios\<close>

text \<open>Concrete inputs, the scenarios of section 8 of the specification among them, on which
  the theorems below are instantiated.\<close>

definition lyell_day :: "NormalizedWorkRecord list" where
  "lyell_day = [\<lparr>employee_ref = Resolved ''a@co.com'', date = 1, hours = 6, task_count = 1,
                  project = ''lyell'', category = ''etl''\<rparr>,
                \<lparr>employee_ref = Resolved ''b@co.com'', date = 1, hours = 0, task_count = 0,
                  project = ''lyell'', category = ''testing''\<rparr>]"

definition lyell_bucket :: BillingRecord where
  "lyell_bucket = \<lparr>br_employee = Resolved ''a@co.com'', br_date = 1, br_category = ''etl'',
                    actual_hours = 6, billable_hours = 4, extra_hours = 2, cap_applied = True\<rparr>"

definition idle_bucket :: BillingRecord where
  "idle_bucket = \<lparr>br_employee = Resolved ''b@co.com'', br_date = 1, br_category = ''testing'',
                   actual_hours = 0, billable_hours = 0, extra_hours = 0, cap_applied = False\<rparr>"

definition lyell_summary :: BillingSummary where
  "lyell_summary =
     \<lparr>buckets = [lyell_bucket, idle_bucket], total_hours = 6, total_billable_hours = 4,
      total_extra_hours = 2, has_sow_violations = True,
      employee_breakdown =
        [\<lparr>eb_employee = Resolved ''a@co.com'', eb_total_hours = 6, eb_billable_hours = 4,
          eb_extra_hours = 2, billing_efficiency = 200 / 3\<rparr>,
         \<lparr>eb_employee = Resolved ''b@co.com'', eb_total_hours = 0, eb_billable_hours = 0,
          eb_extra_hours = 0, billing_efficiency = 100\<rparr>]\<rparr>"

definition dataplatr_day :: "NormalizedWorkRecord list" where
  "dataplatr_day = [\<lparr>employee_ref = Resolved ''a@co.com'', date = 1, hours = 7, task_count = 1,
                      project = ''dataplatr'', category = ''etl''\<rparr>,
                    \<lparr>employee_ref = Resolved ''a@co.com'', date = 1, hours = 5, task_count = 1,
                      project = ''dataplatr'', category = ''etl''\<rparr>]"

definition dataplatr_bucket :: BillingRecord where
  "dataplatr_bucket = \<lparr>br_employee = Resolved ''a@co.com'', br_date = 1, br_category = ''etl'',
                        actual_hours = 12, billable_hours = 12, extra_hours = 0,
                        cap_applied = False\<rparr>"

definition dataplatr_summary :: BillingSummary where
  "dataplatr_summary =
     \<lparr>buckets = [dataplatr_bucket], total_hours = 12, total_billable_hours = 12,
      total_extra_hours = 0, has_sow_violations = False,
      employee_breakdown =
        [\<lparr>eb_employee = Resolved ''a@co.com'', eb_total_hours = 12, eb_billable_hours = 12,
          eb_extra_hours = 0, billing_efficiency = 100\<rparr>]\<rparr>"

definition idle_employee :: status_inputs where
  "idle_employee = \<lparr>si_rate = 0, si_hours = 8, si_gap = 10\<rparr>"

definition gappy_employee :: status_inputs where
  "gappy_employee = \<lparr>si_rate = 0.7, si_hours = 8, si_gap = 3\<rparr>"

definition rec_on :: "string \<Rightarrow> int \<Rightarrow> NormalizedWorkRecord" where
  "rec_on e d = \<lparr>employee_ref = Resolved e, date = d, hours = 8, task_count = 2,
                 project = ''dataplatr'', category = ''development''\<rparr>"

definition ten_days :: "NormalizedWorkRecord list" where
  "ten_days = map (rec_on ''jane@co.com'') [1, 2, 3, 7, 8, 9]
              @ [rec_on ''bob@co.com'' 10, rec_on ''jane@co.com'' 10]"

definition no_json :: "string \<Rightarrow> js_error + ChartData option" where
  "no_json s = Inl SyntaxError"

text \<open>A descriptor without labels and datasets, as an external layer may send it, in a
  message from which the fallback derives a chart.\<close>
definition malformed_chart :: ChartData where
  "malformed_chart = \<lparr>chartType = Some ''bar'', chartTitle = Some ''Hours'', labels = None,
                       datasets = None\<rparr>"

definition team_charts :: comprehensiveCharts where
  "team_charts =
     \<lparr>status_distribution = Some [\<lparr>sd_status = ''Good'', sd_count = 3\<rparr>,
                                   \<lparr>sd_status = ''Poor'', sd_count = 1\<rparr>],
      project_distribution = None, top_submitters = Some [], top_hours = None\<rparr>"

definition status_chart :: ChartData where
  "status_chart =
     \<lparr>chartType = Some ''doughnut'', chartTitle = Some ''Team Status Distribution'',
      labels = Some [''Good'', ''Poor''],
      datasets = Some [\<lparr>ds_label = ''Employees'', ds_data = Some [JNum 3, JNum 1],
                        ds_borderWidth = None\<rparr>]\<rparr>"

definition status_message :: Message where
  "status_message =
     \<lparr>msg_sender = bot, msg_text = ''Team status'', msg_chartData = Some malformed_chart,
      msg_comprehensiveCharts = Some team_charts\<rparr>"

definition plain_message :: Message where
  "plain_message =
     \<lparr>msg_sender = bot, msg_text = ''Team status'',
      msg_chartData = Some \<lparr>chartType = Some ''none'', chartTitle = None, labels = None,
                            datasets = None\<rparr>,
      msg_comprehensiveCharts = Some team_charts\<rparr>"

text \<open>A descriptor with four labels, a dataset of three strings, which is too short, and one
  of five mixed values, which is too long.\<close>
definition ragged_chart :: ChartData where
  "ragged_chart =
     \<lparr>chartType = Some ''bar'', chartTitle = None,
      labels = Some [''Mon'', ''Tue'', ''Wed'', ''Thu''],
      datasets = Some [\<lparr>ds_label = ''Hours'',
                        ds_data = Some [JStr ''$1,234.5'', JStr ''n/a'', JStr ''2024-01-01''],
                        ds_borderWidth = None\<rparr>,
                       \<lparr>ds_label = ''Tasks'',
                        ds_data = Some [JNum 4, JNull, JStr ''-2'', JStr ''8 hrs 30 mins'', JNum 9],
                        ds_borderWidth = Some 1\<rparr>]\<rparr>"

definition ragged_config :: chart_config where
  "ragged_config =
     \<lparr>cfg_labels = [''Mon'', ''Tue'', ''Wed'', ''Thu''],
      cfg_datasets = [\<lparr>cd_label = ''Hours'', cd_data = [JNum 1234.5, JNum 0, JNum 0, JNum 0],
                       cd_borderWidth = 0, cd_pointRadius = Some 0\<rparr>,
                      \<lparr>cd_label = ''Tasks'', cd_data = [JNum 4, JNum 0, JNum (- 2), JNum 830],
                       cd_borderWidth = 1, cd_pointRadius = Some 0\<rparr>]\<rparr>"

text \<open>A rounding that changes nothing, as that of the language on the numbers of the
  scenarios, which are doubles.\<close>
definition exact_double :: "real \<Rightarrow> real option" where
  "exact_double x = Some x"

text \<open>An environment for the collector in which no call fails. Its numbers print as the
  decimal digits of their integral part and its strings convert as decimal literals, which
  is what JavaScript does on the values of the scenarios.\<close>
function show_nat :: "nat \<Rightarrow> string" where
  "show_nat n = (if n < 10 then [''0123456789'' ! n]
                 else show_nat (n div 10) @ [''0123456789'' ! (n mod 10)])"
  by pat_completeness auto
termination
  by (relation "measure id") auto

definition show_int_part :: "real \<Rightarrow> string" where
  "show_int_part x = (if x < 0 then ''-'' @ show_nat (nat \<lfloor>- x\<rfloor>) else show_nat (nat \<lfloor>x\<rfloor>))"

definition quiet_env :: gas_env where
  "quiet_env = \<lparr>now = 1700000000, now_iso = ''2023-11-14T22:13:20.000Z'',
                today_iso = ''2023-11-14'', fails = (\<lambda>c. False),
                num_str = show_int_part, str_num = Number_cleaned exact_double,
                to_double = exact_double\<rparr>"

definition one_report :: spreadsheet where
  "one_report = \<lparr>sheets = [SHEET_NAME \<mapsto> [header_row]], url = ''https://sheet''\<rparr>"

text \<open>A submission whose tasks are not a list, one with a task whose category cannot be
  printed, and one with nothing but a date.\<close>
definition bad_tasks :: jsval where
  "bad_tasks = JObj [(''employeeName'', JStr ''Jane''), (''email'', JStr ''jane@co.com''),
                     (''reportDate'', JStr ''2023-11-14''), (''tasks'', JStr ''n/a''),
                     (''totalHours'', JNum 8)]"

definition hidden_toString :: jsval where
  "hidden_toString =
     JObj [(''employeeName'', JStr ''Jane''), (''email'', JStr ''jane@co.com''),
           (''tasks'', JArr [JObj [(''category'', JObj [(''toString'', JNum 1)]),
                                   (''description'', JStr ''ETL''), (''hours'', JNum 2)]]),
           (''totalHours'', JNum 2)]"

text \<open>A submission of two tasks, the second without a description, and with its total
  hours as a text; the row that it is saved as.\<close>
definition timed_submission :: jsval where
  "timed_submission =
     JObj [(''employeeName'', JStr ''Jane''), (''email'', JStr ''jane@co.com''),
           (''reportDate'', JStr ''2023-11-13''),
           (''tasks'', JArr [JObj [(''category'', JStr ''ETL''), (''description'', JStr ''Load''),
                                   (''hours'', JNum 2)],
                             JObj [(''category'', JStr ''QA''), (''hours'', JStr ''1'')]]),
           (''totalHours'', JStr ''3.125'')]"

definition timed_row :: "cell list" where
  "timed_row = [CDate 1700000000, CVal (JStr ''jane@co.com''), CVal (JStr ''Jane''),
                CVal (JStr ''2023-11-13''),
                CVal (JStr (''[ETL] Load (2h)'' @ [CHR 0x0A] @ ''[QA] undefined (1h)'')),
                CVal (JStr ''3 hrs 8 mins'')]"

definition bare_submission :: jsval where
  "bare_submission = JObj [(''reportDate'', JStr ''2023-11-14'')]"

definition bare_row :: "cell list" where
  "bare_row = [CDate 1700000000, CVal (JStr []), CVal (JStr []), CVal (JStr ''2023-11-14''),
               CVal (JStr []), CVal (JStr ''0 hrs'')]"

definition empty_message :: Message where
  "empty_message =
     \<lparr>msg_sender = bot, msg_text = ''Team status and performance'', msg_chartData = None,
      msg_comprehensiveCharts =
        Some \<lparr>status_distribution = Some [], project_distribution = None,
              top_submitters = None, top_hours = Some []\<rparr>\<rparr>"

definition status_config :: chart_config where
  "status_config =
     \<lparr>cfg_labels = [''Good'', ''Poor''],
      cfg_datasets = [\<lparr>cd_label = ''Employees'', cd_data = [JNum 3, JNum 1],
                       cd_borderWidth = 0, cd_pointRadius = Some 0\<rparr>]\<rparr>"


section \<open>Properties of the Billing Rule Engine\<close>

lemma bill_buckets_summary:
  "bill table proj recs = Inr summary \<Longrightarrow> table proj = Some pol \<Longrightarrow>
   buckets summary = bill_buckets pol recs"
  by (auto simp: bill_def Let_def split: sum.splits)

lemma bill_bucket_fields:
  "br_employee (bill_bucket pol (e, d, c) s) = e"
  "br_date (bill_bucket pol (e, d, c) s) = d"
  "br_category (bill_bucket pol (e, d, c) s) = c"
  "actual_hours (bill_bucket pol (e, d, c) s) = s"
  by (simp_all add: bill_bucket_def split: cap.splits)

lemma in_bill_buckets:
  "b \<in> set (bill_buckets pol recs) \<Longrightarrow>
   \<exists>k \<in> set (map key_of recs). b = bill_bucket pol k (summed_hours recs k)"
  by (auto simp: bill_buckets_def bucket_keys_def)

lemma efficiency_guarded:
  "efficiency tb th = Inr (if th = 0 then 100 else tb / th * 100)"
  by (simp add: efficiency_def checked_div_def)

lemma employee_rollup_total: "\<exists>r. employee_rollup bs e = Inr r"
  by (simp add: employee_rollup_def Let_def efficiency_guarded)

lemma rollup_all_total: "\<exists>rs. rollup_all bs es = Inr rs"
proof (induction es)
  case Nil
  show ?case by simp
next
  case (Cons e es)
  obtain r where "employee_rollup bs e = Inr r" using employee_rollup_total by blast
  moreover obtain rs where "rollup_all bs es = Inr rs" using Cons.IH by blast
  ultimately show ?case by simp
qed

lemma rollup_all_members:
  "rollup_all bs es = Inr rs \<Longrightarrow> r \<in> set rs \<Longrightarrow> \<exists>e \<in> set es. employee_rollup bs e = Inr r"
  by (induction es arbitrary: rs) (auto split: sum.splits)

lemma bill_no_division_error: "bill table proj recs \<noteq> Inl ZeroDivisionError"
proof (cases "table proj")
  case None
  then show ?thesis by (simp add: bill_def)
next
  case (Some pol)
  obtain rs where "rollup_all (bill_buckets pol recs)
      (remdups (map br_employee (bill_buckets pol recs))) = Inr rs"
    using rollup_all_total by blast
  with Some show ?thesis by (simp add: bill_def Let_def)
qed

lemma lyell_buckets: "bill_buckets lyell_policy lyell_day = [lyell_bucket, idle_bucket]"
  by (simp add: bill_buckets_def bucket_keys_def key_of_def lyell_day_def summed_hours_def
      bill_bucket_def cap_of_def lyell_policy_def lyell_bucket_def idle_bucket_def)

lemma lyell_bill: "bill project_policies ''lyell'' lyell_day = Inr lyell_summary"
  by (simp add: bill_def project_policies_def lyell_buckets employee_rollup_def
      efficiency_def checked_div_def lyell_bucket_def idle_bucket_def lyell_summary_def)

lemma dataplatr_buckets: "bill_buckets dataplatr_policy dataplatr_day = [dataplatr_bucket]"
  by (simp add: bill_buckets_def bucket_keys_def key_of_def dataplatr_day_def summed_hours_def
      bill_bucket_def cap_of_def dataplatr_policy_def dataplatr_bucket_def)

lemma dataplatr_bill: "bill project_policies ''dataplatr'' dataplatr_day = Inr dataplatr_summary"
  by (simp add: bill_def project_policies_def dataplatr_buckets employee_rollup_def
      efficiency_def checked_div_def dataplatr_bucket_def dataplatr_summary_def)

text \<open>
  Claim C1. In the summary that the billing engine returns for a project, every bucket
  (employee, date, category) whose category carries a configured daily cap \<open>C\<close> holds the
  hours summed over the bucket's records; when they exceed \<open>C\<close>, the billable hours are
  \<open>C\<close>, the extra hours are the summed hours less \<open>C\<close> and the cap is marked as
  applied. Hence the billable hours never exceed \<open>C\<close> and the extra hours are
  \<open>max 0 (summed - C)\<close>.
\<close>
theorem capped_bucket_billing:
  assumes "bill table proj recs = Inr summary"
    and "table proj = Some pol"
    and "b \<in> set (buckets summary)"
    and "cap_of pol (br_category b) = Capped C"
  shows "actual_hours b = summed_hours recs (br_employee b, br_date b, br_category b)
       \<and> (actual_hours b > C \<longrightarrow>
            billable_hours b = C \<and> extra_hours b = actual_hours b - C \<and> cap_applied b)
       \<and> billable_hours b \<le> C
       \<and> extra_hours b = max 0 (actual_hours b - C)"
proof -
  from assms(1,2,3) have "b \<in> set (bill_buckets pol recs)"
    by (simp add: bill_buckets_summary)
  then obtain k where b: "b = bill_bucket pol k (summed_hours recs k)"
    using in_bill_buckets by blast
  obtain e d c where k: "k = (e, d, c)" by (cases k)
  from assms(4) have "cap_of pol c = Capped C"
    by (simp add: b k bill_bucket_fields)
  then show ?thesis
    by (simp add: b k bill_bucket_def)
qed

text \<open>The Lyell scenario: six hours of ETL on one day under a cap of four hours.\<close>
theorem capped_bucket_billing_witness:
  "bill project_policies ''lyell'' lyell_day = Inr lyell_summary
   \<and> project_policies ''lyell'' = Some lyell_policy
   \<and> lyell_bucket \<in> set (buckets lyell_summary)
   \<and> cap_of lyell_policy (br_category lyell_bucket) = Capped 4
   \<and> actual_hours lyell_bucket > 4
   \<and> billable_hours lyell_bucket = 4 \<and> extra_hours lyell_bucket = 2
   \<and> cap_applied lyell_bucket \<and> has_sow_violations lyell_summary"
proof -
  have h2: "project_policies ''lyell'' = Some lyell_policy"
    by (simp add: project_policies_def)
  have h3: "lyell_bucket \<in> set (buckets lyell_summary)"
    by (simp add: lyell_summary_def)
  have h4: "cap_of lyell_policy (br_category lyell_bucket) = Capped 4"
    by (simp add: cap_of_def lyell_policy_def lyell_bucket_def)
  have h5: "actual_hours lyell_bucket > 4" "has_sow_violations lyell_summary"
    by (simp_all add: lyell_bucket_def lyell_summary_def)
  from capped_bucket_billing [OF lyell_bill h2 h3 h4] h5
  have "billable_hours lyell_bucket = 4 \<and> extra_hours lyell_bucket = actual_hours lyell_bucket - 4
        \<and> cap_applied lyell_bucket"
    by blast
  moreover have "actual_hours lyell_bucket - 4 = 2" by (simp add: lyell_bucket_def)
  ultimately show ?thesis using lyell_bill h2 h3 h4 h5 by simp
qed

text \<open>
  Claim C3. In the summary that the billing engine returns for a project, every bucket
  whose category has no configured cap, be it configured as uncapped or absent from the
  project's table, has billable hours equal to the hours summed over the bucket and no
  extra hours.
\<close>
theorem uncapped_bucket_billing:
  assumes "bill table proj recs = Inr summary"
    and "table proj = Some pol"
    and "b \<in> set (buckets summary)"
    and "pol (br_category b) = None \<or> pol (br_category b) = Some Uncapped"
  shows "billable_hours b = actual_hours b \<and> extra_hours b = 0
       \<and> actual_hours b = summed_hours recs (br_employee b, br_date b, br_category b)"
proof -
  from assms(1,2,3) have "b \<in> set (bill_buckets pol recs)"
    by (simp add: bill_buckets_summary)
  then obtain k where b: "b = bill_bucket pol k (summed_hours recs k)"
    using in_bill_buckets by blast
  obtain e d c where k: "k = (e, d, c)" by (cases k)
  from assms(4) have "cap_of pol c = Uncapped"
    by (auto simp: b k bill_bucket_fields cap_of_def)
  then show ?thesis
    by (simp add: b k bill_bucket_def)
qed

text \<open>The DataPlatr scenario: twelve hours in one category on one day, no cap configured.\<close>
theorem uncapped_bucket_billing_witness:
  "bill project_policies ''dataplatr'' dataplatr_day = Inr dataplatr_summary
   \<and> project_policies ''dataplatr'' = Some dataplatr_policy
   \<and> dataplatr_bucket \<in> set (buckets dataplatr_summary)
   \<and> dataplatr_policy (br_category dataplatr_bucket) = None
   \<and> summed_hours dataplatr_day (br_employee dataplatr_bucket, br_date dataplatr_bucket,
        br_category dataplatr_bucket) = 12
   \<and> billable_hours dataplatr_bucket = 12 \<and> extra_hours dataplatr_bucket = 0"
proof -
  have h2: "project_policies ''dataplatr'' = Some dataplatr_policy"
    by (simp add: project_policies_def)
  have h3: "dataplatr_bucket \<in> set (buckets dataplatr_summary)"
    by (simp add: dataplatr_summary_def)
  have h4: "dataplatr_policy (br_category dataplatr_bucket) = None"
    by (simp add: dataplatr_policy_def)
  have a: "actual_hours dataplatr_bucket = 12" by (simp add: dataplatr_bucket_def)
  from uncapped_bucket_billing [OF dataplatr_bill h2 h3 disjI1 [OF h4]] a
  show ?thesis using dataplatr_bill h2 h3 h4 by simp
qed

text \<open>
  Claim C4. The billing engine never fails with a division by zero, and every employee
  of the rollup it returns has a billing efficiency of total billable hours / total hours
  * 100, the totals being those of the employee's buckets, and of 100 when the total hours
  are zero.
\<close>
theorem billing_efficiency_guarded:
  "bill table proj recs \<noteq> Inl ZeroDivisionError
   \<and> (bill table proj recs = Inr summary \<and> r \<in> set (employee_breakdown summary) \<longrightarrow>
        billing_efficiency r =
          (if eb_total_hours r = 0 then 100
           else eb_billable_hours r / eb_total_hours r * 100)
        \<and> eb_total_hours r =
            sum_list (map actual_hours (filter (\<lambda>b. br_employee b = eb_employee r) (buckets summary)))
        \<and> eb_billable_hours r =
            sum_list (map billable_hours (filter (\<lambda>b. br_employee b = eb_employee r) (buckets summary))))"
proof (intro conjI impI)
  show "bill table proj recs \<noteq> Inl ZeroDivisionError"
    by (rule bill_no_division_error)
next
  assume a: "bill table proj recs = Inr summary \<and> r \<in> set (employee_breakdown summary)"
  then obtain pol where pol: "table proj = Some pol"
    by (auto simp: bill_def split: option.splits)
  let ?bs = "bill_buckets pol recs"
  have bs: "buckets summary = ?bs"
    using a pol bill_buckets_summary by blast
  from a pol have "rollup_all ?bs (remdups (map br_employee ?bs)) = Inr (employee_breakdown summary)"
    by (auto simp: bill_def Let_def split: sum.splits)
  with a obtain e where e: "employee_rollup ?bs e = Inr r"
    using rollup_all_members by blast
  then show "billing_efficiency r =
          (if eb_total_hours r = 0 then 100
           else eb_billable_hours r / eb_total_hours r * 100)"
    by (auto simp: employee_rollup_def Let_def efficiency_guarded)
  from e show "eb_total_hours r =
      sum_list (map actual_hours (filter (\<lambda>b. br_employee b = eb_employee r) (buckets summary)))"
    by (auto simp: bs employee_rollup_def Let_def efficiency_guarded)
  from e show "eb_billable_hours r =
      sum_list (map billable_hours (filter (\<lambda>b. br_employee b = eb_employee r) (buckets summary)))"
    by (auto simp: bs employee_rollup_def Let_def efficiency_guarded)
qed

text \<open>The Lyell scenario again: one employee with six hours, four of them billable, and one
  whose only record has no hours, for whom the guard gives 100.\<close>
theorem billing_efficiency_guarded_witness:
  "bill project_policies ''lyell'' lyell_day = Inr lyell_summary
   \<and> employee_breakdown lyell_summary ! 1 \<in> set (employee_breakdown lyell_summary)
   \<and> eb_total_hours (employee_breakdown lyell_summary ! 1) = 0
   \<and> billing_efficiency (employee_breakdown lyell_summary ! 1) = 100
   \<and> employee_breakdown lyell_summary ! 0 \<in> set (employee_breakdown lyell_summary)
   \<and> billing_efficiency (employee_breakdown lyell_summary ! 0) = 4 / 6 * 100"
proof -
  have m1: "employee_breakdown lyell_summary ! 1 \<in> set (employee_breakdown lyell_summary)"
    and m0: "employee_breakdown lyell_summary ! 0 \<in> set (employee_breakdown lyell_summary)"
    by (simp_all add: lyell_summary_def)
  have z: "eb_total_hours (employee_breakdown lyell_summary ! 1) = 0"
    and v: "eb_total_hours (employee_breakdown lyell_summary ! 0) = 6"
      "eb_billable_hours (employee_breakdown lyell_summary ! 0) = 4"
    by (simp_all add: lyell_summary_def)
  from billing_efficiency_guarded [of project_policies "''lyell''" lyell_day lyell_summary
      "employee_breakdown lyell_summary ! 1"] lyell_bill m1 z
  have e1: "billing_efficiency (employee_breakdown lyell_summary ! 1) = 100" by simp
  from billing_efficiency_guarded [of project_policies "''lyell''" lyell_day lyell_summary
      "employee_breakdown lyell_summary ! 0"] lyell_bill m0 v
  have e0: "billing_efficiency (employee_breakdown lyell_summary ! 0) = 4 / 6 * 100" by simp
  from lyell_bill m1 m0 z e1 e0 show ?thesis by blast
qed


section \<open>Properties of the status classification\<close>

lemma first_match_nth:
  "k < length rules \<Longrightarrow> fst (rules ! k) i \<Longrightarrow> (\<forall>j<k. \<not> fst (rules ! j) i) \<Longrightarrow>
   first_match rules i = Some (snd (rules ! k))"
proof (induction rules arbitrary: k)
  case Nil
  then show ?case by simp
next
  case (Cons r rules)
  obtain p s where r: "r = (p, s)" by (cases r)
  show ?case
  proof (cases k)
    case 0
    with Cons.prems r show ?thesis by simp
  next
    case (Suc m)
    from Cons.prems(3) Suc have "\<not> p i" using r by fastforce
    moreover from Cons.prems Suc have "first_match rules i = Some (snd (rules ! m))"
      by (intro Cons.IH) auto
    ultimately show ?thesis using r Suc by simp
  qed
qed

lemma first_match_none:
  "(\<forall>k<length rules. \<not> fst (rules ! k) i) \<Longrightarrow> first_match rules i = None"
proof (induction rules)
  case Nil
  show ?case by simp
next
  case (Cons r rules)
  obtain p s where r: "r = (p, s)" by (cases r)
  from Cons.prems have "\<not> p i" using r by fastforce
  moreover from Cons.prems have "first_match rules i = None"
    by (intro Cons.IH) fastforce
  ultimately show ?case using r by simp
qed

text \<open>The table read as the chain of tests it amounts to.\<close>
lemma classify_unfold:
  "classify th i =
     (if si_rate i = 0 then NonReporter
      else if si_rate i < very_poor_rate th then VeryPoor
      else if si_rate i < poor_rate th then Poor
      else if si_gap i \<ge> inconsistent_gap th then Inconsistent
      else if si_hours i \<ge> good_min_hours th then Good
      else if si_rate i \<ge> excellent_rate th
            \<and> excellent_hours_lo th \<le> si_hours i \<and> si_hours i \<le> excellent_hours_hi th
            \<and> si_gap i \<le> excellent_max_gap th then Excellent
      else Good)"
  by (simp add: classify_def decision_table_def is_inconsistent_def)

text \<open>With the default thresholds the rule for \<open>Good\<close>, which comes first, matches whatever
  the rule for \<open>Excellent\<close> matches: in the stated order no employee is \<open>Excellent\<close>.\<close>
lemma excellent_shadowed: "classify default_thresholds i \<noteq> Excellent"
  by (simp add: classify_unfold default_thresholds_def)

text \<open>
  Claim C2. The status classification is a function of submission rate, average daily
  hours and maximal gap into the six statuses, each of which the filter panel offers. The
  decision table is applied in its order and the first rule that matches decides; when no
  rule matches the status is \<open>Good\<close>. An employee with submission rate 0 is a
  \<open>Non-Reporter\<close> and not \<open>Poor\<close>.
\<close>
theorem status_classification_total:
  "classify th i \<in> {NonReporter, VeryPoor, Poor, Inconsistent, Good, Excellent}
   \<and> status_label (classify th i) \<in> set availableStatuses
   \<and> (\<forall>k < length (decision_table th).
         fst (decision_table th ! k) i \<and> (\<forall>j<k. \<not> fst (decision_table th ! j) i)
         \<longrightarrow> classify th i = snd (decision_table th ! k))
   \<and> ((\<forall>k < length (decision_table th). \<not> fst (decision_table th ! k) i)
         \<longrightarrow> classify th i = Good)
   \<and> (si_rate i = 0 \<longrightarrow> classify th i = NonReporter \<and> classify th i \<noteq> Poor)"
proof (intro conjI allI impI)
  show "classify th i \<in> {NonReporter, VeryPoor, Poor, Inconsistent, Good, Excellent}"
    by (cases "classify th i") simp_all
  show "status_label (classify th i) \<in> set availableStatuses"
    by (cases "classify th i") (simp_all add: availableStatuses_def)
next
  fix k
  assume "k < length (decision_table th)"
    and "fst (decision_table th ! k) i \<and> (\<forall>j<k. \<not> fst (decision_table th ! j) i)"
  then have "first_match (decision_table th) i = Some (snd (decision_table th ! k))"
    by (intro first_match_nth) auto
  then show "classify th i = snd (decision_table th ! k)"
    by (simp add: classify_def)
next
  assume "\<forall>k < length (decision_table th). \<not> fst (decision_table th ! k) i"
  then have "first_match (decision_table th) i = None"
    by (rule first_match_none)
  then show "classify th i = Good"
    by (simp add: classify_def)
next
  assume "si_rate i = 0"
  then show "classify th i = NonReporter" "classify th i \<noteq> Poor"
    by (simp_all add: classify_unfold)
qed

text \<open>An employee who never reported, and the one of the specification's scenario, with
  rate 0.7 and a gap of three days, whom the fourth rule is the first to match.\<close>
theorem status_classification_total_witness:
  "si_rate idle_employee = 0
   \<and> classify default_thresholds idle_employee = NonReporter
   \<and> classify default_thresholds idle_employee \<noteq> Poor
   \<and> classify default_thresholds gappy_employee = Inconsistent"
proof -
  have r0: "si_rate idle_employee = 0" by (simp add: idle_employee_def)
  have m3: "(3::nat) < length (decision_table default_thresholds)
     \<and> fst (decision_table default_thresholds ! 3) gappy_employee
     \<and> (\<forall>j<3. \<not> fst (decision_table default_thresholds ! j) gappy_employee)"
    by (simp add: decision_table_def default_thresholds_def gappy_employee_def
        is_inconsistent_def numeral_3_eq_3 less_Suc_eq)
  have s3: "snd (decision_table default_thresholds ! 3) = Inconsistent"
    by (simp add: decision_table_def numeral_3_eq_3)
  from status_classification_total [of default_thresholds idle_employee] r0
  have a: "classify default_thresholds idle_employee = NonReporter
         \<and> classify default_thresholds idle_employee \<noteq> Poor" by blast
  from status_classification_total [of default_thresholds gappy_employee] m3 s3
  have b: "classify default_thresholds gappy_employee = Inconsistent" by metis
  from r0 a b show ?thesis by blast
qed

section \<open>Properties of the submission index\<close>

lemma submitted_in_range:
  assumes "d \<in> set (submitted_days recs e)"
  shows "d \<in> set (working_days recs)"
proof -
  from assms obtain r where r: "r \<in> set recs" "date r = d"
    by (auto simp: submitted_days_def)
  then have ne: "recs \<noteq> []" by auto
  have "d \<in> set (map date recs)" using r by force
  then have "Min (set (map date recs)) \<le> d" "d \<le> Max (set (map date recs))"
    by simp_all
  with ne show ?thesis by (simp add: working_days_def)
qed

lemma submitted_le_working:
  "length (submitted_days recs e) \<le> length (working_days recs)"
proof -
  have ds: "distinct (submitted_days recs e)" by (simp add: submitted_days_def)
  have dw: "distinct (working_days recs)" by (simp add: working_days_def)
  have "set (submitted_days recs e) \<subseteq> set (working_days recs)"
    using submitted_in_range by blast
  then have "card (set (submitted_days recs e)) \<le> card (set (working_days recs))"
    by (intro card_mono) simp_all
  with ds dw show ?thesis by (simp add: distinct_card)
qed

lemma ten_days_working: "working_days ten_days = [1, 2, 3, 4, 5, 6, 7, 8, 9, 10]"
  by (simp add: working_days_def ten_days_def rec_on_def upto.simps)

lemma ten_days_submitted: "submitted_days ten_days ''jane@co.com'' = [1, 2, 3, 7, 8, 9, 10]"
  by (simp add: submitted_days_def ten_days_def rec_on_def)

lemma ten_days_rate: "submission_rate ten_days ''jane@co.com'' = 0.7"
  by (simp add: submission_rate_def ten_days_working ten_days_submitted)

lemma ten_days_gap: "max_consecutive_gap ten_days ''jane@co.com'' = 3"
  by (simp add: max_consecutive_gap_def ten_days_working ten_days_submitted)

text \<open>
  Claim C7. For every employee and every set of records, the submitted days of the
  submission index are among its working days, the submission rate lies between 0 and 1,
  and the individual metrics carry that rate, their submitted and missed days adding up
  to the working days.
\<close>
theorem submission_index_invariant:
  "set (submitted_days recs e) \<subseteq> set (working_days recs)
   \<and> 0 \<le> submission_rate recs e \<and> submission_rate recs e \<le> 1
   \<and> im_submission_rate (compute_metrics recs e) = submission_rate recs e
   \<and> days_submitted (compute_metrics recs e) + days_missed (compute_metrics recs e)
       = length (working_days recs)"
proof -
  have sub: "set (submitted_days recs e) \<subseteq> set (working_days recs)"
    using submitted_in_range by blast
  have le: "length (submitted_days recs e) \<le> length (working_days recs)"
    by (rule submitted_le_working)
  have "0 \<le> submission_rate recs e" by (simp add: submission_rate_def)
  moreover have "submission_rate recs e \<le> 1"
    using le by (simp add: submission_rate_def)
  ultimately show ?thesis using sub le by (simp add: compute_metrics_def)
qed

text \<open>The scenario of the specification: ten working days, submissions on seven of them.\<close>
theorem submission_index_invariant_witness:
  "set (submitted_days ten_days ''jane@co.com'') \<subseteq> set (working_days ten_days)
   \<and> submission_rate ten_days ''jane@co.com'' = 0.7
   \<and> submission_rate ten_days ''jane@co.com'' \<le> 1
   \<and> days_missed (compute_metrics ten_days ''jane@co.com'') = 3"
  using submission_index_invariant [of ten_days "''jane@co.com''"]
  by (simp add: ten_days_rate ten_days_working ten_days_submitted compute_metrics_def)


section \<open>Properties of the chart pipeline\<close>

lemma digit_val_char: "c \<in> set ''0123456789'' \<Longrightarrow> digit_val c = of_char c - 48"
  by (auto simp: digit_val_def)

lemma foldl_digits:
  "list_all is_digit ds \<Longrightarrow>
   foldl (\<lambda>acc c. 10 * acc + digit_val c) a ds = foldl (\<lambda>acc c. 10 * acc + (of_char c - 48)) a ds"
proof (induction ds arbitrary: a)
  case Nil
  show ?case by simp
next
  case (Cons c ds)
  from Cons.prems have c: "is_digit c" and ds: "list_all is_digit ds" by simp_all
  from c have "c \<in> set ''0123456789''" unfolding is_digit_def .
  then have "digit_val c = of_char c - 48" by (rule digit_val_char)
  then show ?case using Cons.IH [OF ds] by simp
qed

lemma digits_all: "set ds \<subseteq> set ''0123456789'' \<longleftrightarrow> list_all is_digit ds"
  unfolding is_digit_def list_all_iff by (rule subset_eq)

lemma digits_val_dec:
  "set ds \<subseteq> set ''0123456789'' \<Longrightarrow>
   digits_val ds = foldl (\<lambda>acc c. 10 * acc + (of_char c - 48)) 0 ds"
  unfolding digits_val_def digits_all by (rule foldl_digits)

lemma numeric_char:
  "(is_digit c \<or> c = CHR ''.'' \<or> c = CHR ''-'') = (c \<in> set ''0123456789.-'')"
  by (auto simp: is_digit_def)

lemma strip_filter:
  "strip_non_numeric s = filter (\<lambda>c. c \<in> set ''0123456789.-'') s"
  unfolding strip_non_numeric_def numeric_char ..

lemma dot_no_digit: "\<not> is_digit CHR ''.''" "\<not> is_digit CHR ''-''"
  by (simp_all add: is_digit_def)

lemma unsigned_digits:
  assumes "list_all is_digit ip" "ip \<noteq> []"
  shows "unsigned_decimal ip = Some (real (digits_val ip))"
proof -
  from assms(1) have a: "\<forall>c \<in> set ip. is_digit c" by (simp add: list_all_iff)
  have tw: "takeWhile is_digit ip = ip"
    by (rule takeWhile_eq_all_conv [THEN iffD2]) (use a in blast)
  have dw: "dropWhile is_digit ip = []"
    by (rule dropWhile_eq_Nil_conv [THEN iffD2]) (use a in blast)
  show ?thesis unfolding unsigned_decimal_def Let_def tw dw using assms(2) by simp
qed

lemma unsigned_fraction:
  assumes "list_all is_digit ip" "list_all is_digit fp" "ip \<noteq> [] \<or> fp \<noteq> []"
  shows "unsigned_decimal (ip @ ''.'' @ fp) =
     Some (real (digits_val ip) + real (digits_val fp) / 10 ^ length fp)"
proof -
  from assms(1) have a: "\<forall>c \<in> set ip. is_digit c" by (simp add: list_all_iff)
  have tw: "takeWhile is_digit (ip @ CHR ''.'' # fp) = ip"
    using a by (simp add: takeWhile_append2 dot_no_digit)
  have dw: "dropWhile is_digit (ip @ CHR ''.'' # fp) = CHR ''.'' # fp"
    using a by (simp add: dropWhile_append2 dot_no_digit)
  have e: "ip @ ''.'' @ fp = ip @ CHR ''.'' # fp" by simp
  show ?thesis unfolding e unsigned_decimal_def Let_def tw dw using assms(2,3) by simp
qed

lemma unsigned_forms:
  assumes "unsigned_decimal s = Some x"
  shows "(list_all is_digit s \<and> s \<noteq> [])
       \<or> (\<exists>ip fp. list_all is_digit ip \<and> list_all is_digit fp
             \<and> (ip \<noteq> [] \<or> fp \<noteq> []) \<and> s = ip @ ''.'' @ fp)"
proof -
  define ip where "ip = takeWhile is_digit s"
  define rest where "rest = dropWhile is_digit s"
  have "\<forall>c \<in> set ip. is_digit c"
    unfolding ip_def using set_takeWhileD by fastforce
  then have ip: "list_all is_digit ip" by (simp add: list_all_iff)
  have s: "s = ip @ rest" by (simp add: ip_def rest_def)
  have u: "(case rest of
         [] \<Rightarrow> if ip = [] then None else Some (real (digits_val ip))
       | c # fp \<Rightarrow>
           if c = CHR ''.'' \<and> list_all is_digit fp \<and> (ip \<noteq> [] \<or> fp \<noteq> [])
           then Some (real (digits_val ip) + real (digits_val fp) / 10 ^ length fp)
           else None) = Some x"
    using assms unfolding unsigned_decimal_def Let_def ip_def rest_def .
  show ?thesis
  proof (cases rest)
    case Nil
    with u have "ip \<noteq> []" by (auto split: if_splits)
    with Nil s ip show ?thesis by simp
  next
    case (Cons c fp)
    with u have c: "c = CHR ''.''" and fp: "list_all is_digit fp"
      and ne: "ip \<noteq> [] \<or> fp \<noteq> []"
      by (auto split: if_splits)
    from s Cons c have "s = ip @ ''.'' @ fp" by simp
    with fp ip ne show ?thesis by blast
  qed
qed

lemma decimal_literal_body:
  assumes "body \<noteq> []" "hd body \<noteq> CHR ''-''"
  shows "decimal_literal body = unsigned_decimal body"
    and "decimal_literal (''-'' @ body) = map_option uminus (unsigned_decimal body)"
  using assms by (cases body; simp add: decimal_literal_def)+

lemma digits_hd: "list_all is_digit ip \<Longrightarrow> ip \<noteq> [] \<Longrightarrow> hd ip \<noteq> CHR ''-''"
  using dot_no_digit(2) by (cases ip) auto

lemma fraction_hd: "list_all is_digit ip \<Longrightarrow> hd (ip @ ''.'' @ fp) \<noteq> CHR ''-''"
  using dot_no_digit(2) by (cases ip) auto

lemma decimal_literal_digits:
  assumes "sg = [] \<or> sg = ''-''" "list_all is_digit ip" "ip \<noteq> []"
  shows "decimal_literal (sg @ ip) =
     Some (if sg = [] then real (digits_val ip) else - real (digits_val ip))"
  using assms decimal_literal_body [OF assms(3) digits_hd [OF assms(2,3)]]
  by (auto simp: unsigned_digits)

lemma decimal_literal_fraction:
  assumes "sg = [] \<or> sg = ''-''" "list_all is_digit ip" "list_all is_digit fp"
    "ip \<noteq> [] \<or> fp \<noteq> []"
  shows "decimal_literal (sg @ ip @ ''.'' @ fp) =
     Some (if sg = [] then real (digits_val ip) + real (digits_val fp) / 10 ^ length fp
           else - (real (digits_val ip) + real (digits_val fp) / 10 ^ length fp))"
proof -
  have ne: "ip @ ''.'' @ fp \<noteq> []" by simp
  from decimal_literal_body [OF ne fraction_hd [OF assms(2)]] assms(1)
    unsigned_fraction [OF assms(2,3,4)]
  show ?thesis by auto
qed

lemma decimal_literal_forms:
  assumes "decimal_literal s = Some x"
  shows "(\<exists>sg ip. (sg = [] \<or> sg = ''-'') \<and> list_all is_digit ip \<and> ip \<noteq> [] \<and> s = sg @ ip)
       \<or> (\<exists>sg ip fp. (sg = [] \<or> sg = ''-'') \<and> list_all is_digit ip \<and> list_all is_digit fp
             \<and> (ip \<noteq> [] \<or> fp \<noteq> []) \<and> s = sg @ ip @ ''.'' @ fp)"
proof (cases s)
  case Nil
  with assms show ?thesis by (simp add: decimal_literal_def)
next
  case (Cons c cs)
  show ?thesis
  proof (cases "c = CHR ''-''")
    case True
    with assms Cons obtain y where "unsigned_decimal cs = Some y"
      by (auto simp: decimal_literal_def)
    from unsigned_forms [OF this] have
      "(list_all is_digit cs \<and> cs \<noteq> [] \<and> s = ''-'' @ cs)
       \<or> (\<exists>ip fp. list_all is_digit ip \<and> list_all is_digit fp
             \<and> (ip \<noteq> [] \<or> fp \<noteq> []) \<and> s = ''-'' @ ip @ ''.'' @ fp)"
      using Cons True by auto
    then show ?thesis by blast
  next
    case False
    with assms Cons have "unsigned_decimal s = Some x"
      by (simp add: decimal_literal_def)
    from unsigned_forms [OF this] have
      "(list_all is_digit s \<and> s \<noteq> [] \<and> s = [] @ s)
       \<or> (\<exists>ip fp. list_all is_digit ip \<and> list_all is_digit fp
             \<and> (ip \<noteq> [] \<or> fp \<noteq> []) \<and> s = [] @ ip @ ''.'' @ fp)"
      by auto
    then show ?thesis by blast
  qed
qed

lemma Number_cleaned_number: "typeof_number (Number_cleaned dbl s)"
  by (simp add: Number_cleaned_def number_value_def split: option.splits)

lemma typeof_number_iff:
  "typeof_number v \<longleftrightarrow> (\<exists>x. v = JNum x) \<or> v = JNaN \<or> (\<exists>b. v = JInf b)"
  by (cases v) simp_all

lemma numeric_entry_number: "typeof_number (numeric_entry dbl v)"
  by (cases v) (simp_all add: numeric_entry_def js_or_def Number_cleaned_number)

lemma numeric_entry_kept: "typeof_number v \<Longrightarrow> numeric_entry dbl v = v"
  by (simp add: numeric_entry_def)

lemma numeric_entry_other:
  "\<not> typeof_number v \<Longrightarrow> (\<forall>s. v \<noteq> JStr s) \<Longrightarrow> numeric_entry dbl v = JNum 0"
  by (cases v) (simp_all add: numeric_entry_def)

lemma rounded_or_zero:
  "js_or (number_value dbl x) (JNum 0) = (case dbl x of Some d \<Rightarrow> JNum d | None \<Rightarrow> JInf (0 < x))"
  by (simp add: js_or_def number_value_def split: option.splits)

lemma numeric_entry_string:
  "numeric_entry dbl (JStr s) =
     (if strip_non_numeric s = [] then JNum 0
      else (case decimal_literal (strip_non_numeric s) of
              None \<Rightarrow> JNum 0
            | Some x \<Rightarrow> (case dbl x of Some d \<Rightarrow> JNum d | None \<Rightarrow> JInf (0 < x))))"
proof (cases "strip_non_numeric s = []")
  case True
  then show ?thesis by (simp add: numeric_entry_def Number_cleaned_def js_or_def)
next
  case False
  show ?thesis
  proof (cases "decimal_literal (strip_non_numeric s)")
    case None
    with False show ?thesis by (simp add: numeric_entry_def Number_cleaned_def js_or_def)
  next
    case (Some x)
    with False show ?thesis
      by (simp add: numeric_entry_def Number_cleaned_def rounded_or_zero)
  qed
qed

lemma fit_to_labels_data:
  "cd_data (fit_to_labels n d) = take n (cd_data d @ replicate (n - length (cd_data d)) (JNum 0))"
  by (simp add: fit_to_labels_def Let_def)

lemma fit_to_labels_length: "length (cd_data (fit_to_labels n d)) = n"
  by (simp add: fit_to_labels_data)

lemma DynamicChart_rendered:
  assumes "DynamicChart dbl (Some chartData) = Inr (RenderChart cmp cfg)"
  obtains ty ls dss where "chartType chartData = Some ty" "labels chartData = Some ls"
    "datasets chartData = Some dss" "dss \<noteq> []" "ty \<noteq> ''none''"
    "RenderChart cmp cfg =
       renderChart ty \<lparr>cfg_labels = ls, cfg_datasets = map (prepare_dataset dbl ty) dss\<rparr>"
  using assms
  by (auto simp: DynamicChart_def valid_chart_def non_empty_def or_empty_def
      split: if_splits option.splits list.splits)

lemma DynamicChart_rendered_valid:
  "DynamicChart dbl (Some chartData) = Inr (RenderChart cmp cfg) \<Longrightarrow>
   valid_chart chartData \<and> chartType chartData \<noteq> Some ''none''"
  by (auto simp: DynamicChart_def split: if_splits)

lemma DynamicChart_invalid:
  "\<not> valid_chart chartData \<Longrightarrow> DynamicChart dbl (Some chartData) = Inr RenderNothing"
  by (simp add: DynamicChart_def)

lemma one_dataset_chart_renders:
  "ls \<noteq> [] \<Longrightarrow> ty \<noteq> ''none'' \<Longrightarrow> length vals = length ls \<Longrightarrow>
   DynamicChart dbl (Some (one_dataset_chart ty title ls lab vals)) =
     Inr (renderChart ty \<lparr>cfg_labels = ls, cfg_datasets =
        [prepare_dataset dbl ty \<lparr>ds_label = lab, ds_data = Some (map JNum vals), ds_borderWidth = None\<rparr>]\<rparr>)"
  by (cases vals)
    (auto simp: DynamicChart_def one_dataset_chart_def valid_chart_def non_empty_def or_empty_def)

lemma one_dataset_chart_valid:
  "ls \<noteq> [] \<Longrightarrow> length vals = length ls \<Longrightarrow> valid_chart (one_dataset_chart ty title ls lab vals)"
  by (cases vals) (auto simp: one_dataset_chart_def valid_chart_def non_empty_def or_empty_def)

lemma one_dataset_chart_well_formed:
  "ls \<noteq> [] \<Longrightarrow> ty \<noteq> ''none'' \<Longrightarrow> length vals = length ls \<Longrightarrow>
   well_formed (one_dataset_chart ty title ls lab vals)"
  by (simp add: well_formed_def one_dataset_chart_def list_all_iff)

lemma builder_cases:
  assumes "getChartFromComprehensiveData message = Some cd"
  obtains ty title ls lab vals where "cd = one_dataset_chart ty title ls lab vals"
    "ls \<noteq> []" "ty \<noteq> ''none''" "length vals = length ls"
  using assms
  by (auto simp: getChartFromComprehensiveData_def Let_def non_empty_def or_empty_def
      split: option.splits if_splits)

lemma status_message_builder: "getChartFromComprehensiveData status_message = Some status_chart"
  by (simp add: getChartFromComprehensiveData_def status_message_def team_charts_def
      toLowerCase_def toLowerCase_char_def non_empty_def or_empty_def one_dataset_chart_def
      status_chart_def)

lemma plain_message_builder: "getChartFromComprehensiveData plain_message = Some status_chart"
  by (simp add: getChartFromComprehensiveData_def plain_message_def team_charts_def
      toLowerCase_def toLowerCase_char_def non_empty_def or_empty_def one_dataset_chart_def
      status_chart_def)

lemma empty_message_builder: "getChartFromComprehensiveData empty_message = None"
  by (simp add: getChartFromComprehensiveData_def empty_message_def
      toLowerCase_def toLowerCase_char_def non_empty_def)

lemma status_chart_render:
  "DynamicChart exact_double (Some status_chart) = Inr (RenderChart Doughnut status_config)"
  by (simp add: DynamicChart_def status_chart_def valid_chart_def non_empty_def or_empty_def
      renderChart_def chart_component_def prepare_dataset_def fit_to_labels_def
      numeric_entry_def status_config_def)

lemma ragged_render:
  "DynamicChart exact_double (Some ragged_chart) = Inr (RenderChart Bar ragged_config)"
  by (simp add: DynamicChart_def ragged_chart_def valid_chart_def non_empty_def or_empty_def
      renderChart_def chart_component_def prepare_dataset_def fit_to_labels_def
      numeric_entry_def strip_non_numeric_def is_digit_def Number_cleaned_def decimal_literal_def
      unsigned_decimal_def digits_val_def digit_val_def or_zero_def ragged_config_def
      number_value_def exact_double_def js_or_def)

lemma malformed_invalid: "\<not> valid_chart malformed_chart"
  by (simp add: valid_chart_def malformed_chart_def)

text \<open>
  Claim C5, as stated, fails: a malformed explicit descriptor is not discarded in favour of
  the fallback. The message below carries a descriptor without labels and datasets and
  comprehensive charts from which the fallback derives a chart that would be rendered;
  the malformed descriptor is the one extracted, and the bubble shows no chart.
\<close>
theorem malformed_descriptor_kept:
  "msg_chartData status_message = Some malformed_chart
   \<and> \<not> valid_chart malformed_chart
   \<and> fallback_chart no_json status_message = Some status_chart
   \<and> DynamicChart exact_double (Some status_chart) = Inr (RenderChart Doughnut status_config)
   \<and> extractedChartData no_json status_message = Some malformed_chart
   \<and> extractedChartData no_json status_message \<noteq> fallback_chart no_json status_message
   \<and> bubble_chart exact_double no_json status_message = Inr RenderNothing"
proof -
  have f: "fallback_chart no_json status_message = Some status_chart"
    by (simp add: fallback_chart_def status_message_builder)
  have e: "extractedChartData no_json status_message = Some malformed_chart"
    by (simp add: extractedChartData_def status_message_def malformed_chart_def)
  have n: "malformed_chart \<noteq> status_chart"
    by (simp add: malformed_chart_def status_chart_def)
  have b: "bubble_chart exact_double no_json status_message = Inr RenderNothing"
    by (simp add: bubble_chart_def e DynamicChart_invalid malformed_invalid)
  have m: "msg_chartData status_message = Some malformed_chart"
    by (simp add: status_message_def)
  from m malformed_invalid f status_chart_render e n b show ?thesis by simp
qed

text \<open>
  Claim C5, amended. The explicit descriptor of a message is extracted whenever it is
  present and its type is not \<^verbatim>\<open>'none'\<close>, be it malformed or not; the deterministic fallback
  (the comprehensive charts, then the embedded JSON) is used when the message has no
  explicit descriptor or one of type \<^verbatim>\<open>'none'\<close>. A descriptor that fails the validation of
  \<^verbatim>\<open>DynamicChart\<close> is rendered as nothing, neither a chart nor an error, and a chart is
  rendered only for a descriptor that passes the validation.
\<close>
theorem explicit_descriptor_selection:
  "(msg_chartData message = Some chartData \<and> chartType chartData \<noteq> Some ''none''
      \<longrightarrow> extractedChartData JSON_parse message = Some chartData)
   \<and> (msg_chartData message = None
        \<or> (\<exists>c. msg_chartData message = Some c \<and> chartType c = Some ''none'')
      \<longrightarrow> extractedChartData JSON_parse message = fallback_chart JSON_parse message)
   \<and> (\<not> valid_chart chartData \<longrightarrow> DynamicChart dbl (Some chartData) = Inr RenderNothing)
   \<and> (msg_chartData message = Some chartData \<and> chartType chartData \<noteq> Some ''none''
        \<and> \<not> valid_chart chartData
      \<longrightarrow> bubble_chart dbl JSON_parse message = Inr RenderNothing)
   \<and> (DynamicChart dbl (Some chartData) = Inr (RenderChart cmp cfg)
      \<longrightarrow> valid_chart chartData \<and> chartType chartData \<noteq> Some ''none'')"
proof (intro conjI impI)
  assume "msg_chartData message = Some chartData \<and> chartType chartData \<noteq> Some ''none''"
  then show "extractedChartData JSON_parse message = Some chartData"
    by (simp add: extractedChartData_def)
next
  assume "msg_chartData message = None
        \<or> (\<exists>c. msg_chartData message = Some c \<and> chartType c = Some ''none'')"
  then show "extractedChartData JSON_parse message = fallback_chart JSON_parse message"
    by (auto simp: extractedChartData_def)
next
  assume "\<not> valid_chart chartData"
  then show "DynamicChart dbl (Some chartData) = Inr RenderNothing"
    by (rule DynamicChart_invalid)
next
  assume "msg_chartData message = Some chartData \<and> chartType chartData \<noteq> Some ''none''
        \<and> \<not> valid_chart chartData"
  then show "bubble_chart dbl JSON_parse message = Inr RenderNothing"
    by (simp add: bubble_chart_def extractedChartData_def DynamicChart_invalid)
next
  assume r: "DynamicChart dbl (Some chartData) = Inr (RenderChart cmp cfg)"
  then show "valid_chart chartData" "chartType chartData \<noteq> Some ''none''"
    using DynamicChart_rendered_valid by blast+
qed

text \<open>The malformed descriptor is extracted and shown as nothing; with a descriptor of type
  \<^verbatim>\<open>'none'\<close> the same message shows the chart of the fallback.\<close>
theorem explicit_descriptor_selection_witness:
  "msg_chartData status_message = Some malformed_chart
   \<and> chartType malformed_chart \<noteq> Some ''none'' \<and> \<not> valid_chart malformed_chart
   \<and> extractedChartData no_json status_message = Some malformed_chart
   \<and> bubble_chart exact_double no_json status_message = Inr RenderNothing
   \<and> extractedChartData no_json plain_message = Some status_chart
   \<and> valid_chart status_chart"
proof -
  have m: "msg_chartData status_message = Some malformed_chart"
    by (simp add: status_message_def)
  have t: "chartType malformed_chart \<noteq> Some ''none''"
    by (simp add: malformed_chart_def)
  have p: "\<exists>c. msg_chartData plain_message = Some c \<and> chartType c = Some ''none''"
    by (simp add: plain_message_def)
  have f: "fallback_chart no_json plain_message = Some status_chart"
    by (simp add: fallback_chart_def plain_message_builder)
  from explicit_descriptor_selection [where message = status_message
      and chartData = malformed_chart and JSON_parse = no_json and dbl = exact_double] m t
    malformed_invalid
  have a: "extractedChartData no_json status_message = Some malformed_chart
         \<and> bubble_chart exact_double no_json status_message = Inr RenderNothing" by blast
  from explicit_descriptor_selection [where message = plain_message
      and chartData = malformed_chart and JSON_parse = no_json and dbl = exact_double] p f
  have b: "extractedChartData no_json plain_message = Some status_chart" by simp
  from explicit_descriptor_selection [where chartData = status_chart and dbl = exact_double
      and cmp = Doughnut and cfg = status_config] status_chart_render
  have c: "valid_chart status_chart" by blast
  from m t malformed_invalid a b c show ?thesis by blast
qed

text \<open>
  Claim C6. Whatever the message, the chart builder of the front end
  (\<^verbatim>\<open>getChartFromComprehensiveData\<close>) returns either \<^verbatim>\<open>null\<close>, for which nothing is handed to
  the renderer, or a descriptor with a chart type, labels and datasets that are not empty
  and as many numbers in each dataset as labels; such a descriptor passes the validation
  of the renderer, which renders it.
\<close>
theorem builder_descriptor_valid:
  "getChartFromComprehensiveData message = None
   \<or> (\<exists>cd cmp cfg. getChartFromComprehensiveData message = Some cd
         \<and> well_formed cd \<and> valid_chart cd
         \<and> DynamicChart dbl (Some cd) = Inr (RenderChart cmp cfg))"
proof (cases "getChartFromComprehensiveData message")
  case None
  then show ?thesis by simp
next
  case (Some cd)
  then obtain ty title ls lab vals where cd: "cd = one_dataset_chart ty title ls lab vals"
    and ok: "ls \<noteq> []" "ty \<noteq> ''none''" "length vals = length ls"
    by (rule builder_cases)
  have "well_formed cd" "valid_chart cd"
    using ok by (simp_all add: cd one_dataset_chart_well_formed one_dataset_chart_valid)
  moreover have "\<exists>cmp cfg. DynamicChart dbl (Some cd) = Inr (RenderChart cmp cfg)"
    using ok by (simp add: cd one_dataset_chart_renders renderChart_def)
  ultimately show ?thesis using Some by blast
qed

text \<open>A message with a status distribution, and one whose charts are all empty.\<close>
theorem builder_descriptor_valid_witness:
  "getChartFromComprehensiveData status_message = Some status_chart
   \<and> well_formed status_chart \<and> valid_chart status_chart
   \<and> getChartFromComprehensiveData empty_message = None"
  using builder_descriptor_valid [of status_message exact_double] status_message_builder
    empty_message_builder
  by auto

lemma padded_nth:
  "j < n \<Longrightarrow> take n (xs @ replicate (n - length xs) z) ! j = (if j < length xs then xs ! j else z)"
  by (simp add: nth_append)

lemma coerce_empty:
  "filter (\<lambda>c. c \<in> set ''0123456789.-'') s = [] \<Longrightarrow> numeric_entry dbl (JStr s) = JNum 0"
  unfolding strip_filter [symmetric] by (simp add: numeric_entry_string)

lemma coerce_digits:
  assumes "sg = [] \<or> sg = ''-''" "ip \<noteq> []" "set ip \<subseteq> set ''0123456789''"
    and "filter (\<lambda>c. c \<in> set ''0123456789.-'') s = sg @ ip"
    and "x = (if sg = [] then real (foldl (\<lambda>a c. 10 * a + (of_char c - 48)) 0 ip)
              else - real (foldl (\<lambda>a c. 10 * a + (of_char c - 48)) 0 ip))"
  shows "numeric_entry dbl (JStr s) = (case dbl x of Some d \<Rightarrow> JNum d | None \<Rightarrow> JInf (0 < x))"
proof -
  from assms(3) have d: "list_all is_digit ip" using digits_all by blast
  from assms(4) have cl: "strip_non_numeric s = sg @ ip" by (simp add: strip_filter)
  have "decimal_literal (sg @ ip) = Some x"
    unfolding assms(5) digits_val_dec [OF assms(3), symmetric]
    by (rule decimal_literal_digits [OF assms(1) d assms(2)])
  with assms(2) cl show ?thesis by (simp add: numeric_entry_string)
qed

lemma coerce_fraction:
  assumes "sg = [] \<or> sg = ''-''" "ip \<noteq> [] \<or> fp \<noteq> []"
    and "set ip \<subseteq> set ''0123456789''" "set fp \<subseteq> set ''0123456789''"
    and "filter (\<lambda>c. c \<in> set ''0123456789.-'') s = sg @ ip @ ''.'' @ fp"
    and "x = (if sg = []
              then real (foldl (\<lambda>a c. 10 * a + (of_char c - 48)) 0 ip)
                   + real (foldl (\<lambda>a c. 10 * a + (of_char c - 48)) 0 fp) / 10 ^ length fp
              else - (real (foldl (\<lambda>a c. 10 * a + (of_char c - 48)) 0 ip)
                   + real (foldl (\<lambda>a c. 10 * a + (of_char c - 48)) 0 fp) / 10 ^ length fp))"
  shows "numeric_entry dbl (JStr s) = (case dbl x of Some d \<Rightarrow> JNum d | None \<Rightarrow> JInf (0 < x))"
proof -
  from assms(3) have di: "list_all is_digit ip" using digits_all by blast
  from assms(4) have df: "list_all is_digit fp" using digits_all by blast
  from assms(5) have cl: "strip_non_numeric s = sg @ ip @ ''.'' @ fp" by (simp add: strip_filter)
  then have ne: "strip_non_numeric s \<noteq> []" by simp
  have "decimal_literal (sg @ ip @ ''.'' @ fp) = Some x"
    unfolding assms(6) digits_val_dec [OF assms(3), symmetric] digits_val_dec [OF assms(4), symmetric]
    by (rule decimal_literal_fraction [OF assms(1) di df assms(2)])
  with ne cl show ?thesis by (simp add: numeric_entry_string)
qed

lemma coerce_other:
  assumes "filter (\<lambda>c. c \<in> set ''0123456789.-'') s = cl"
    and "\<not> (\<exists>sg ip. (sg = [] \<or> sg = ''-'') \<and> ip \<noteq> [] \<and> set ip \<subseteq> set ''0123456789''
              \<and> cl = sg @ ip)"
    and "\<not> (\<exists>sg ip fp. (sg = [] \<or> sg = ''-'') \<and> (ip \<noteq> [] \<or> fp \<noteq> [])
              \<and> set ip \<subseteq> set ''0123456789'' \<and> set fp \<subseteq> set ''0123456789''
              \<and> cl = sg @ ip @ ''.'' @ fp)"
  shows "numeric_entry dbl (JStr s) = JNum 0"
proof -
  from assms(1) have cl: "strip_non_numeric s = cl" by (simp add: strip_filter)
  have "decimal_literal cl = None"
  proof (rule ccontr)
    assume "decimal_literal cl \<noteq> None"
    then obtain x where "decimal_literal cl = Some x" by blast
    from decimal_literal_forms [OF this] assms(2,3) show False
      unfolding digits_all by blast
  qed
  with cl show ?thesis by (simp add: numeric_entry_string)
qed

text \<open>
  Claim C9. When \<^verbatim>\<open>DynamicChart\<close> renders a descriptor whose type is neither scatter nor
  bubble, the labels of the chart are those of the descriptor and every dataset of the
  chart has exactly as many entries as there are labels, each of them a number: entry
  \<open>j\<close> of dataset \<open>i\<close> is the coerced entry \<open>j\<close> of dataset \<open>i\<close> of the descriptor,
  and 0 where that dataset has no such entry, so that a dataset that is too short is
  filled up with zeros and one that is too long is cut. The coercion keeps a number (a
  finite one, \<^verbatim>\<open>NaN\<close> or an infinity). Of a string it keeps the digits, dots and minus
  signs and drops every other character; when what is left is empty the entry is 0, when
  it is a decimal literal (an optional minus sign before digits, digits with a dot and
  maybe digits after it, or a dot and digits) the entry is the double nearest to its
  value, and otherwise the entry is 0. Any other value becomes 0.
\<close>
theorem rendered_data_normalised:
  assumes "DynamicChart dbl (Some chartData) = Inr (RenderChart cmp cfg)"
    and "chartType chartData \<noteq> Some ''scatter''"
    and "chartType chartData \<noteq> Some ''bubble''"
    and "d \<in> set (cfg_datasets cfg)"
  shows "cfg_labels cfg = or_empty (labels chartData)
       \<and> length (cd_data d) = length (or_empty (labels chartData))
       \<and> (\<forall>v \<in> set (cd_data d). typeof_number v)
       \<and> (\<exists>src \<in> set (or_empty (datasets chartData)).
            cd_data d =
              take (length (cfg_labels cfg))
                (map (numeric_entry dbl) (or_empty (ds_data src))
                 @ replicate (length (cfg_labels cfg) - length (or_empty (ds_data src))) (JNum 0)))
       \<and> (\<exists>ls dss. labels chartData = Some ls \<and> datasets chartData = Some dss
            \<and> cfg_labels cfg = ls \<and> length (cfg_datasets cfg) = length dss
            \<and> (\<forall>i < length dss.
                  length (cd_data (cfg_datasets cfg ! i)) = length ls
                  \<and> (\<forall>j < length ls.
                        cd_data (cfg_datasets cfg ! i) ! j =
                          (case ds_data (dss ! i) of
                             None \<Rightarrow> JNum 0
                           | Some xs \<Rightarrow> if j < length xs then numeric_entry dbl (xs ! j)
                                        else JNum 0))))
       \<and> (\<forall>v. typeof_number v \<longleftrightarrow> (\<exists>x. v = JNum x) \<or> v = JNaN \<or> (\<exists>b. v = JInf b))
       \<and> (\<forall>v. typeof_number v \<longrightarrow> numeric_entry dbl v = v)
       \<and> (\<forall>v. \<not> typeof_number v \<and> (\<forall>s. v \<noteq> JStr s) \<longrightarrow> numeric_entry dbl v = JNum 0)
       \<and> (\<forall>s. filter (\<lambda>c. c \<in> set ''0123456789.-'') s = []
              \<longrightarrow> numeric_entry dbl (JStr s) = JNum 0)
       \<and> (\<forall>s sg ip x.
             (sg = [] \<or> sg = ''-'') \<and> ip \<noteq> [] \<and> set ip \<subseteq> set ''0123456789''
             \<and> filter (\<lambda>c. c \<in> set ''0123456789.-'') s = sg @ ip
             \<and> x = (if sg = [] then real (foldl (\<lambda>a c. 10 * a + (of_char c - 48)) 0 ip)
                     else - real (foldl (\<lambda>a c. 10 * a + (of_char c - 48)) 0 ip))
             \<longrightarrow> numeric_entry dbl (JStr s) =
                   (case dbl x of Some y \<Rightarrow> JNum y | None \<Rightarrow> JInf (0 < x)))
       \<and> (\<forall>s sg ip fp x.
             (sg = [] \<or> sg = ''-'') \<and> (ip \<noteq> [] \<or> fp \<noteq> [])
             \<and> set ip \<subseteq> set ''0123456789'' \<and> set fp \<subseteq> set ''0123456789''
             \<and> filter (\<lambda>c. c \<in> set ''0123456789.-'') s = sg @ ip @ ''.'' @ fp
             \<and> x = (if sg = []
                     then real (foldl (\<lambda>a c. 10 * a + (of_char c - 48)) 0 ip)
                          + real (foldl (\<lambda>a c. 10 * a + (of_char c - 48)) 0 fp) / 10 ^ length fp
                     else - (real (foldl (\<lambda>a c. 10 * a + (of_char c - 48)) 0 ip)
                          + real (foldl (\<lambda>a c. 10 * a + (of_char c - 48)) 0 fp) / 10 ^ length fp))
             \<longrightarrow> numeric_entry dbl (JStr s) =
                   (case dbl x of Some y \<Rightarrow> JNum y | None \<Rightarrow> JInf (0 < x)))
       \<and> (\<forall>s cl.
             filter (\<lambda>c. c \<in> set ''0123456789.-'') s = cl
             \<and> \<not> (\<exists>sg ip. (sg = [] \<or> sg = ''-'') \<and> ip \<noteq> [] \<and> set ip \<subseteq> set ''0123456789''
                      \<and> cl = sg @ ip)
             \<and> \<not> (\<exists>sg ip fp. (sg = [] \<or> sg = ''-'') \<and> (ip \<noteq> [] \<or> fp \<noteq> [])
                      \<and> set ip \<subseteq> set ''0123456789'' \<and> set fp \<subseteq> set ''0123456789''
                      \<and> cl = sg @ ip @ ''.'' @ fp)
             \<longrightarrow> numeric_entry dbl (JStr s) = JNum 0)"
proof -
  from assms(1) obtain ty ls dss where f: "chartType chartData = Some ty"
    "labels chartData = Some ls" "datasets chartData = Some dss" "dss \<noteq> []"
    and r: "RenderChart cmp cfg =
      renderChart ty \<lparr>cfg_labels = ls, cfg_datasets = map (prepare_dataset dbl ty) dss\<rparr>"
    by (rule DynamicChart_rendered)
  from assms(2,3) f have ty: "ty \<noteq> ''scatter''" "ty \<noteq> ''bubble''" by auto
  from r f ty have cfg: "cfg = \<lparr>cfg_labels = ls,
      cfg_datasets = map (fit_to_labels (length ls)) (map (prepare_dataset dbl ty) dss)\<rparr>"
    by (simp add: renderChart_def)
  have pd: "cd_data (prepare_dataset dbl ty src) = map (numeric_entry dbl) (or_empty (ds_data src))"
    for src using ty by (simp add: prepare_dataset_def)
  from assms(4) cfg obtain src where src: "src \<in> set dss"
    "d = fit_to_labels (length ls) (prepare_dataset dbl ty src)"
    by auto
  have 1: "cfg_labels cfg = or_empty (labels chartData)"
    by (simp add: cfg f or_empty_def)
  have 2: "length (cd_data d) = length (or_empty (labels chartData))"
    by (simp add: src fit_to_labels_length f or_empty_def)
  have 3: "\<forall>v \<in> set (cd_data d). typeof_number v"
  proof
    fix v assume "v \<in> set (cd_data d)"
    then have "v \<in> set (map (numeric_entry dbl) (or_empty (ds_data src))) \<or> v = JNum 0"
      unfolding src(2) fit_to_labels_data pd
      by (auto dest!: in_set_takeD)
    then show "typeof_number v"
      by (auto simp: numeric_entry_number)
  qed
  have "cd_data d = take (length (cfg_labels cfg))
                (map (numeric_entry dbl) (or_empty (ds_data src))
                 @ replicate (length (cfg_labels cfg) - length (or_empty (ds_data src))) (JNum 0))"
    by (simp add: src(2) fit_to_labels_data pd cfg)
  moreover from src(1) f have "src \<in> set (or_empty (datasets chartData))"
    by (simp add: or_empty_def)
  ultimately have 4: "\<exists>src \<in> set (or_empty (datasets chartData)).
            cd_data d =
              take (length (cfg_labels cfg))
                (map (numeric_entry dbl) (or_empty (ds_data src))
                 @ replicate (length (cfg_labels cfg) - length (or_empty (ds_data src))) (JNum 0))"
    by blast
  have entry: "length (cd_data (cfg_datasets cfg ! i)) = length ls
      \<and> (\<forall>j < length ls.
            cd_data (cfg_datasets cfg ! i) ! j =
              (case ds_data (dss ! i) of
                 None \<Rightarrow> JNum 0
               | Some xs \<Rightarrow> if j < length xs then numeric_entry dbl (xs ! j) else JNum 0))"
    if i: "i < length dss" for i
  proof -
    have di: "cfg_datasets cfg ! i = fit_to_labels (length ls) (prepare_dataset dbl ty (dss ! i))"
      using i by (simp add: cfg)
    have "cd_data (cfg_datasets cfg ! i) ! j =
              (case ds_data (dss ! i) of
                 None \<Rightarrow> JNum 0
               | Some xs \<Rightarrow> if j < length xs then numeric_entry dbl (xs ! j) else JNum 0)"
      if j: "j < length ls" for j
    proof -
      let ?xs = "map (numeric_entry dbl) (or_empty (ds_data (dss ! i)))"
      have "cd_data (cfg_datasets cfg ! i) ! j =
          take (length ls) (?xs @ replicate (length ls - length ?xs) (JNum 0)) ! j"
        by (simp only: di fit_to_labels_data pd)
      also have "\<dots> = (if j < length ?xs then ?xs ! j else JNum 0)"
        using j by (rule padded_nth)
      also have "\<dots> = (case ds_data (dss ! i) of
                 None \<Rightarrow> JNum 0
               | Some xs \<Rightarrow> if j < length xs then numeric_entry dbl (xs ! j) else JNum 0)"
        by (simp add: or_empty_def split: option.splits)
      finally show ?thesis .
    qed
    then show ?thesis by (simp add: di fit_to_labels_length)
  qed
  have 5: "\<exists>ls dss. labels chartData = Some ls \<and> datasets chartData = Some dss
            \<and> cfg_labels cfg = ls \<and> length (cfg_datasets cfg) = length dss
            \<and> (\<forall>i < length dss.
                  length (cd_data (cfg_datasets cfg ! i)) = length ls
                  \<and> (\<forall>j < length ls.
                        cd_data (cfg_datasets cfg ! i) ! j =
                          (case ds_data (dss ! i) of
                             None \<Rightarrow> JNum 0
                           | Some xs \<Rightarrow> if j < length xs then numeric_entry dbl (xs ! j)
                                        else JNum 0)))"
  proof (intro exI conjI)
    show "labels chartData = Some ls" "datasets chartData = Some dss" by (fact f)+
    show "cfg_labels cfg = ls" "length (cfg_datasets cfg) = length dss" by (simp_all add: cfg)
    show "\<forall>i < length dss.
                  length (cd_data (cfg_datasets cfg ! i)) = length ls
                  \<and> (\<forall>j < length ls.
                        cd_data (cfg_datasets cfg ! i) ! j =
                          (case ds_data (dss ! i) of
                             None \<Rightarrow> JNum 0
                           | Some xs \<Rightarrow> if j < length xs then numeric_entry dbl (xs ! j)
                                        else JNum 0))"
      using entry by blast
  qed
  have 6: "\<forall>v. typeof_number v \<longleftrightarrow> (\<exists>x. v = JNum x) \<or> v = JNaN \<or> (\<exists>b. v = JInf b)"
    using typeof_number_iff by blast
  have 7: "\<forall>v. typeof_number v \<longrightarrow> numeric_entry dbl v = v"
    using numeric_entry_kept by blast
  have 8: "\<forall>v. \<not> typeof_number v \<and> (\<forall>s. v \<noteq> JStr s) \<longrightarrow> numeric_entry dbl v = JNum 0"
    using numeric_entry_other by blast
  have 9: "\<forall>s. filter (\<lambda>c. c \<in> set ''0123456789.-'') s = []
              \<longrightarrow> numeric_entry dbl (JStr s) = JNum 0"
    using coerce_empty by blast
  have 10: "\<forall>s sg ip x.
             (sg = [] \<or> sg = ''-'') \<and> ip \<noteq> [] \<and> set ip \<subseteq> set ''0123456789''
             \<and> filter (\<lambda>c. c \<in> set ''0123456789.-'') s = sg @ ip
             \<and> x = (if sg = [] then real (foldl (\<lambda>a c. 10 * a + (of_char c - 48)) 0 ip)
                     else - real (foldl (\<lambda>a c. 10 * a + (of_char c - 48)) 0 ip))
             \<longrightarrow> numeric_entry dbl (JStr s) =
                   (case dbl x of Some y \<Rightarrow> JNum y | None \<Rightarrow> JInf (0 < x))"
    by (intro allI impI, elim conjE, rule coerce_digits)
  have 11: "\<forall>s sg ip fp x.
             (sg = [] \<or> sg = ''-'') \<and> (ip \<noteq> [] \<or> fp \<noteq> [])
             \<and> set ip \<subseteq> set ''0123456789'' \<and> set fp \<subseteq> set ''0123456789''
             \<and> filter (\<lambda>c. c \<in> set ''0123456789.-'') s = sg @ ip @ ''.'' @ fp
             \<and> x = (if sg = []
                     then real (foldl (\<lambda>a c. 10 * a + (of_char c - 48)) 0 ip)
                          + real (foldl (\<lambda>a c. 10 * a + (of_char c - 48)) 0 fp) / 10 ^ length fp
                     else - (real (foldl (\<lambda>a c. 10 * a + (of_char c - 48)) 0 ip)
                          + real (foldl (\<lambda>a c. 10 * a + (of_char c - 48)) 0 fp) / 10 ^ length fp))
             \<longrightarrow> numeric_entry dbl (JStr s) =
                   (case dbl x of Some y \<Rightarrow> JNum y | None \<Rightarrow> JInf (0 < x))"
    by (intro allI impI, elim conjE, rule coerce_fraction)
  have 12: "\<forall>s cl.
             filter (\<lambda>c. c \<in> set ''0123456789.-'') s = cl
             \<and> \<not> (\<exists>sg ip. (sg = [] \<or> sg = ''-'') \<and> ip \<noteq> [] \<and> set ip \<subseteq> set ''0123456789''
                      \<and> cl = sg @ ip)
             \<and> \<not> (\<exists>sg ip fp. (sg = [] \<or> sg = ''-'') \<and> (ip \<noteq> [] \<or> fp \<noteq> [])
                      \<and> set ip \<subseteq> set ''0123456789'' \<and> set fp \<subseteq> set ''0123456789''
                      \<and> cl = sg @ ip @ ''.'' @ fp)
             \<longrightarrow> numeric_entry dbl (JStr s) = JNum 0"
    by (intro allI impI, elim conjE, rule coerce_other)
  show ?thesis
    by (intro conjI) (fact 1 2 3 4 5 6 7 8 9 10 11 12)+
qed

text \<open>Four labels. A dataset of three strings is filled up with a zero: of the first string
  the dollar sign and the comma are dropped, the other two leave no number. A dataset of
  five values is cut to four.\<close>
theorem rendered_data_normalised_witness:
  "DynamicChart exact_double (Some ragged_chart) = Inr (RenderChart Bar ragged_config)
   \<and> chartType ragged_chart \<noteq> Some ''scatter'' \<and> chartType ragged_chart \<noteq> Some ''bubble''
   \<and> cfg_datasets ragged_config ! 0 \<in> set (cfg_datasets ragged_config)
   \<and> length (cd_data (cfg_datasets ragged_config ! 0)) = 4
   \<and> cd_data (cfg_datasets ragged_config ! 0) = [JNum 1234.5, JNum 0, JNum 0, JNum 0]
   \<and> cd_data (cfg_datasets ragged_config ! 1) = [JNum 4, JNum 0, JNum (- 2), JNum 830]
   \<and> numeric_entry exact_double (JStr ''$1,234.5'') = JNum 1234.5
   \<and> numeric_entry exact_double (JStr ''n/a'') = JNum 0"
proof -
  have t: "chartType ragged_chart \<noteq> Some ''scatter''" "chartType ragged_chart \<noteq> Some ''bubble''"
    by (simp_all add: ragged_chart_def)
  have m: "cfg_datasets ragged_config ! 0 \<in> set (cfg_datasets ragged_config)"
    by (simp add: ragged_config_def)
  have l: "length (or_empty (labels ragged_chart)) = 4"
    by (simp add: ragged_chart_def or_empty_def)
  note th = rendered_data_normalised [OF ragged_render t m]
  from th l have len: "length (cd_data (cfg_datasets ragged_config ! 0)) = 4" by simp
  have f: "filter (\<lambda>c. c \<in> set ''0123456789.-'') ''$1,234.5'' = [] @ ''1234'' @ ''.'' @ ''5''"
    by simp
  have d: "set ''1234'' \<subseteq> set ''0123456789''" "set ''5'' \<subseteq> set ''0123456789''"
    by simp_all
  have x: "(1234.5 :: real) =
      (if ([] :: string) = []
       then real (foldl (\<lambda>a c. 10 * a + (of_char c - 48)) 0 ''1234'')
            + real (foldl (\<lambda>a c. 10 * a + (of_char c - 48)) 0 ''5'') / 10 ^ length ''5''
       else - (real (foldl (\<lambda>a c. 10 * a + (of_char c - 48)) 0 ''1234'')
            + real (foldl (\<lambda>a c. 10 * a + (of_char c - 48)) 0 ''5'') / 10 ^ length ''5''))"
    by simp
  from th have "\<forall>s sg ip fp x.
             (sg = [] \<or> sg = ''-'') \<and> (ip \<noteq> [] \<or> fp \<noteq> [])
             \<and> set ip \<subseteq> set ''0123456789'' \<and> set fp \<subseteq> set ''0123456789''
             \<and> filter (\<lambda>c. c \<in> set ''0123456789.-'') s = sg @ ip @ ''.'' @ fp
             \<and> x = (if sg = []
                     then real (foldl (\<lambda>a c. 10 * a + (of_char c - 48)) 0 ip)
                          + real (foldl (\<lambda>a c. 10 * a + (of_char c - 48)) 0 fp) / 10 ^ length fp
                     else - (real (foldl (\<lambda>a c. 10 * a + (of_char c - 48)) 0 ip)
                          + real (foldl (\<lambda>a c. 10 * a + (of_char c - 48)) 0 fp) / 10 ^ length fp))
             \<longrightarrow> numeric_entry exact_double (JStr s) =
                   (case exact_double x of Some y \<Rightarrow> JNum y | None \<Rightarrow> JInf (0 < x))"
    by (elim conjE)
  from this [rule_format, of "[]" "''1234''" "''5''" "''$1,234.5''" "1234.5"] f d x
  have c1: "numeric_entry exact_double (JStr ''$1,234.5'') = JNum 1234.5"
    by (simp add: exact_double_def)
  from th have "\<forall>s. filter (\<lambda>c. c \<in> set ''0123456789.-'') s = []
              \<longrightarrow> numeric_entry exact_double (JStr s) = JNum 0"
    by (elim conjE)
  from this [rule_format, of "''n/a''"]
  have c2: "numeric_entry exact_double (JStr ''n/a'') = JNum 0" by simp
  have "cd_data (cfg_datasets ragged_config ! 0) = [JNum 1234.5, JNum 0, JNum 0, JNum 0]"
    "cd_data (cfg_datasets ragged_config ! 1) = [JNum 4, JNum 0, JNum (- 2), JNum 830]"
    by (simp_all add: ragged_config_def)
  with ragged_render t m len c1 c2 show ?thesis by simp
qed

section \<open>Properties of \<^verbatim>\<open>saveToSheet\<close>\<close>

lemma no_critical_failure:
  "\<forall>c \<in> set critical_calls. \<not> fails env c \<Longrightarrow>
   \<not> fails env GetActiveSpreadsheet \<and> \<not> fails env GetSheetByName \<and> \<not> fails env InsertSheet
   \<and> \<not> fails env AppendHeader \<and> \<not> fails env FormatHeader \<and> \<not> fails env AppendRow
   \<and> \<not> fails env GetLastRow \<and> \<not> fails env GetUrl"
  by (simp add: critical_calls_def)

lemma ensure_sheet_ok:
  assumes "\<forall>c \<in> set critical_calls. \<not> fails env c"
  shows "ensure_sheet env ss = (ss\<lparr>sheets := (sheets ss)(SHEET_NAME \<mapsto> rows_before ss)\<rparr>, Inr ())"
proof (cases "sheets ss SHEET_NAME")
  case None
  then show ?thesis using no_critical_failure [OF assms]
    by (simp add: ensure_sheet_def rows_before_def Let_def)
next
  case (Some rows)
  then have "(sheets ss)(SHEET_NAME \<mapsto> rows) = sheets ss" by (simp add: map_upd_triv)
  with Some show ?thesis using no_critical_failure [OF assms]
    by (simp add: ensure_sheet_def rows_before_def)
qed

lemma get_prop_defined:
  "data \<noteq> JNull \<Longrightarrow> data \<noteq> JUndefined \<Longrightarrow> get_prop data k = Inr (field data k)"
  by (cases data) (auto simp: field_def split: option.splits)

lemma get_prop_nullish:
  "data = JNull \<or> data = JUndefined \<Longrightarrow> get_prop data k = Inl TypeError"
  by auto

lemma printable_text:
  "printable v \<Longrightarrow> \<exists>s. js_ToString ns v = Inr s"
  "all_printable xs \<Longrightarrow> \<exists>ss. elements_text ns xs = Inr ss"
  by (induction ns v and ns xs rule: js_ToString_elements_text.induct) auto

lemma text_error:
  "js_ToString ns v = Inl e \<Longrightarrow> e = TypeError"
  "elements_text ns xs = Inl e \<Longrightarrow> e = TypeError"
  by (induction ns v and ns xs rule: js_ToString_elements_text.induct)
    (auto split: sum.splits if_splits)

lemma text_printable:
  "js_ToString ns v = Inr s \<Longrightarrow> printable v"
  "elements_text ns xs = Inr ss \<Longrightarrow> all_printable xs"
  by (induction ns v and ns xs arbitrary: s and ss rule: js_ToString_elements_text.induct)
    (auto split: sum.splits if_splits)

lemma unprintable_text:
  assumes "\<not> printable v"
  shows "js_ToString ns v = Inl TypeError"
proof (cases "js_ToString ns v")
  case (Inl e)
  then show ?thesis using text_error(1) by blast
next
  case (Inr s)
  with assms show ?thesis using text_printable(1) by blast
qed

lemma printable_number: "printable v \<Longrightarrow> \<exists>n. js_ToNumber ns sn v = Inr n"
  using printable_text(1) [of v ns] by (cases v) auto

lemma printable_or: "printable a \<Longrightarrow> printable b \<Longrightarrow> printable (js_or a b)"
  by (simp add: js_or_def)

lemma time_spent_ok:
  assumes "printable v"
  shows "\<exists>s. time_spent env v = Inr s"
proof -
  from assms obtain n where n: "js_ToNumber (num_str env) (str_num env) v = Inr n"
    using printable_number by blast
  from assms obtain s where s: "js_ToString (num_str env) v = Inr s"
    using printable_text(1) by blast
  show ?thesis
    by (cases n) (simp_all add: time_spent_def bind_err_def n s)
qed

lemma format_task_ok: "task_ok t \<Longrightarrow> \<exists>l. format_task ns t = Inr l"
proof -
  assume t: "task_ok t"
  then have d: "t \<noteq> JNull" "t \<noteq> JUndefined" by (simp_all add: task_ok_def)
  from t obtain c where c: "js_ToString ns (field t ''category'') = Inr c"
    using printable_text(1) task_ok_def by blast
  from t obtain e where e: "js_ToString ns (field t ''description'') = Inr e"
    using printable_text(1) task_ok_def by blast
  from t obtain h where h: "js_ToString ns (field t ''hours'') = Inr h"
    using printable_text(1) task_ok_def by blast
  show ?thesis
    by (simp add: format_task_def bind_err_def get_prop_defined [OF d] c e h)
qed

lemma format_tasks_ok:
  "list_all task_ok ts \<Longrightarrow> \<exists>ls. format_tasks ns ts = Inr ls"
proof (induction ts)
  case Nil
  show ?case by simp
next
  case (Cons t ts)
  then obtain l where "format_task ns t = Inr l" using format_task_ok by fastforce
  moreover from Cons obtain ls where "format_tasks ns ts = Inr ls" by auto
  ultimately show ?case by (simp add: bind_err_def)
qed

lemma time_spent_zero: "time_spent env (JNum 0) = Inr (num_str env 0 @ '' hrs'')"
  by (simp add: time_spent_def js_rem1_def bind_err_def)

lemma build_row_ok:
  assumes "data \<noteq> JNull" "data \<noteq> JUndefined"
    and "missing data ''tasks'' \<or> task_list (field data ''tasks'')"
    and "printable (field data ''totalHours'')"
  shows "\<exists>ts lines timeSpent. js_or (field data ''tasks'') (JArr []) = JArr ts
     \<and> format_tasks (num_str env) ts = Inr lines
     \<and> time_spent env (js_or (field data ''totalHours'') (JNum 0)) = Inr timeSpent
     \<and> build_row env data =
         Inr ([CDate (now env),
               CVal (js_or (field data ''email'') (JStr [])),
               CVal (js_or (field data ''employeeName'') (JStr [])),
               CVal (js_or (field data ''reportDate'') (JStr (today_iso env))),
               CVal (JStr (join [CHR 0x0A] lines)),
               CVal (JStr timeSpent)],
              length ts, js_or (field data ''totalHours'') (JNum 0))"
proof -
  from assms(3) obtain ts where ts: "js_or (field data ''tasks'') (JArr []) = JArr ts"
    "list_all task_ok ts"
  proof
    assume "missing data ''tasks''"
    then have "js_or (field data ''tasks'') (JArr []) = JArr []"
      using assms(1,2) by (simp add: missing_def get_prop_defined js_or_def)
    then show ?thesis using that by simp
  next
    assume "task_list (field data ''tasks'')"
    then obtain ts where "field data ''tasks'' = JArr ts" "list_all task_ok ts"
      by (auto simp: task_list_def split: jsval.splits)
    then show ?thesis using that by (simp add: js_or_def)
  qed
  from ts(2) obtain lines where l: "format_tasks (num_str env) ts = Inr lines"
    using format_tasks_ok by blast
  have "printable (js_or (field data ''totalHours'') (JNum 0))"
    using assms(4) by (simp add: printable_or)
  then obtain timeSpent
    where h: "time_spent env (js_or (field data ''totalHours'') (JNum 0)) = Inr timeSpent"
    using time_spent_ok by blast
  show ?thesis
    using ts(1) l h assms(1,2)
    by (simp add: build_row_def bind_err_def get_prop_defined Let_def)
qed

lemma unprintable_truthy: "\<not> printable v \<Longrightarrow> truthy v"
  by (cases v) simp_all

lemma format_task_fail:
  assumes "\<not> task_ok t"
  shows "format_task ns t = Inl TypeError"
proof (cases "t = JNull \<or> t = JUndefined")
  case True
  then show ?thesis by (auto simp: format_task_def bind_err_def)
next
  case False
  then have d: "t \<noteq> JNull" "t \<noteq> JUndefined" by simp_all
  show ?thesis
  proof (cases "printable (field t ''category'')")
    case False
    then show ?thesis
      by (simp add: format_task_def bind_err_def get_prop_defined [OF d] unprintable_text)
  next
    case c: True
    then obtain cs where cs: "js_ToString ns (field t ''category'') = Inr cs"
      using printable_text(1) by blast
    show ?thesis
    proof (cases "printable (field t ''description'')")
      case False
      then show ?thesis
        by (simp add: format_task_def bind_err_def get_prop_defined [OF d] cs
            unprintable_text)
    next
      case e: True
      then obtain es where es: "js_ToString ns (field t ''description'') = Inr es"
        using printable_text(1) by blast
      from assms d c e have "\<not> printable (field t ''hours'')"
        by (simp add: task_ok_def)
      then show ?thesis
        by (simp add: format_task_def bind_err_def get_prop_defined [OF d] cs es
            unprintable_text)
    qed
  qed
qed

lemma format_tasks_fail:
  "\<not> list_all task_ok ts \<Longrightarrow> format_tasks ns ts = Inl TypeError"
proof (induction ts)
  case Nil
  then show ?case by simp
next
  case (Cons t ts)
  show ?case
  proof (cases "task_ok t")
    case False
    then show ?thesis by (simp add: format_task_fail bind_err_def)
  next
    case True
    then obtain l where "format_task ns t = Inr l" using format_task_ok by blast
    moreover from True Cons.prems have "format_tasks ns ts = Inl TypeError"
      by (intro Cons.IH) simp
    ultimately show ?thesis by (simp add: bind_err_def)
  qed
qed

lemma unprintable_number: "\<not> printable v \<Longrightarrow> js_ToNumber ns sn v = Inl TypeError"
  using unprintable_text [of v ns] by (cases v) simp_all

lemma time_spent_fail: "\<not> printable v \<Longrightarrow> time_spent env v = Inl TypeError"
  by (simp add: time_spent_def bind_err_def unprintable_number)

lemma build_row_fail:
  assumes "data \<noteq> JNull" "data \<noteq> JUndefined"
    and "\<not> ((missing data ''tasks'' \<or> task_list (field data ''tasks''))
            \<and> printable (field data ''totalHours''))"
  shows "build_row env data = Inl TypeError"
proof (cases "missing data ''tasks'' \<or> task_list (field data ''tasks'')")
  case False
  then have tr: "truthy (field data ''tasks'')" and nl: "\<not> task_list (field data ''tasks'')"
    using assms(1,2) by (simp_all add: missing_def get_prop_defined)
  then have t: "js_or (field data ''tasks'') (JArr []) = field data ''tasks''"
    by (simp add: js_or_def)
  show ?thesis
  proof (cases "field data ''tasks''")
    case (JArr ts)
    with nl have "format_tasks (num_str env) ts = Inl TypeError"
      by (simp add: task_list_def format_tasks_fail)
    with JArr t show ?thesis
      by (simp add: build_row_def bind_err_def get_prop_defined [OF assms(1,2)] Let_def)
  qed (use t in \<open>simp_all add: build_row_def bind_err_def get_prop_defined [OF assms(1,2)] Let_def\<close>)
next
  case True
  with assms(3) have np: "\<not> printable (field data ''totalHours'')" by simp
  then have "js_or (field data ''totalHours'') (JNum 0) = field data ''totalHours''"
    by (simp add: js_or_def unprintable_truthy)
  with np have h: "time_spent env (js_or (field data ''totalHours'') (JNum 0)) = Inl TypeError"
    by (simp add: time_spent_fail)
  from True obtain ts where ts: "js_or (field data ''tasks'') (JArr []) = JArr ts"
    "list_all task_ok ts"
  proof
    assume "missing data ''tasks''"
    then have "js_or (field data ''tasks'') (JArr []) = JArr []"
      using assms(1,2) by (simp add: missing_def get_prop_defined js_or_def)
    then show ?thesis using that by simp
  next
    assume "task_list (field data ''tasks'')"
    then obtain ts where "field data ''tasks'' = JArr ts" "list_all task_ok ts"
      by (auto simp: task_list_def split: jsval.splits)
    then show ?thesis using that by (simp add: js_or_def)
  qed
  from ts(2) obtain lines where l: "format_tasks (num_str env) ts = Inr lines"
    using format_tasks_ok by blast
  show ?thesis
    using ts(1) l h
    by (simp add: build_row_def bind_err_def get_prop_defined [OF assms(1,2)] Let_def)
qed

lemma missing_field: "data \<noteq> JNull \<Longrightarrow> data \<noteq> JUndefined \<Longrightarrow> missing data k \<Longrightarrow>
  js_or (field data k) dflt = dflt"
  by (simp add: missing_def get_prop_defined js_or_def)

lemma bad_tasks_save: "saveToSheet quiet_env bad_tasks one_report = (one_report, Failure TypeError)"
  by (simp add: saveToSheet_def saveToSheet_try_def ensure_sheet_def quiet_env_def
      one_report_def build_row_def bind_err_def bad_tasks_def js_or_def)

lemma bare_submission_row: "build_row quiet_env bare_submission = Inr (bare_row, 0, JNum 0)"
  by (simp add: build_row_def bind_err_def bare_submission_def js_or_def quiet_env_def
     time_spent_def js_rem1_def show_int_part_def bare_row_def join_def)

lemma timed_submission_row:
  "build_row quiet_env timed_submission = Inr (timed_row, 2, JStr ''3.125'')"
  by (simp add: build_row_def bind_err_def timed_submission_def js_or_def quiet_env_def
      format_task_def time_spent_def minutes_text_def js_rem1_def js_round_def
      show_int_part_def timed_row_def join_def Number_cleaned_def decimal_literal_def
      unsigned_decimal_def is_digit_def digits_val_def digit_val_def number_value_def
      exact_double_def)

lemma timed_submission_save:
  "saveToSheet quiet_env timed_submission one_report =
     (one_report\<lparr>sheets := [SHEET_NAME \<mapsto> [header_row, timed_row]]\<rparr>,
      Success \<lparr>r_timestamp = ''2023-11-14T22:13:20.000Z'', r_totalTasks = 2,
               r_totalHours = JStr ''3.125'', r_sheetName = SHEET_NAME,
               r_sheetUrl = ''https://sheet''\<rparr>)"
proof -
  have e: "ensure_sheet quiet_env one_report = (one_report, Inr ())"
    by (simp add: ensure_sheet_def quiet_env_def one_report_def)
  have f: "\<not> fails quiet_env c" for c by (simp add: quiet_env_def)
  have n: "now_iso quiet_env = ''2023-11-14T22:13:20.000Z''" by (simp add: quiet_env_def)
  show ?thesis
    by (simp add: saveToSheet_def saveToSheet_try_def e f n timed_submission_row or_empty_def)
      (simp add: one_report_def)
qed

text \<open>A task whose category is an object with a property named \<^verbatim>\<open>toString\<close> cannot be
  printed: the template literal throws and the submission is answered with a failure.\<close>
lemma hidden_toString_save:
  "saveToSheet quiet_env hidden_toString one_report = (one_report, Failure TypeError)"
  by (simp add: saveToSheet_def saveToSheet_try_def ensure_sheet_def quiet_env_def
      one_report_def build_row_def bind_err_def hidden_toString_def js_or_def format_task_def)

text \<open>
  Claim C8, as stated, fails for a field that is present but unusable: a submission whose
  tasks are a text and not a list makes \<^verbatim>\<open>tasks.map\<close> throw, no row is appended and the
  response reports the failure.
\<close>
theorem unusable_tasks_discarded:
  "field bad_tasks ''tasks'' = JStr ''n/a''
   \<and> snd (saveToSheet quiet_env bad_tasks one_report) = Failure TypeError
   \<and> sheets (fst (saveToSheet quiet_env bad_tasks one_report)) SHEET_NAME = Some [header_row]
   \<and> sheets one_report SHEET_NAME = Some [header_row]"
  by (simp add: bad_tasks_save) (simp add: one_report_def field_def bad_tasks_def)

text \<open>
  Claim C8, amended. Whatever the body of \<^verbatim>\<open>saveToSheet\<close> throws, the function returns
  \<^verbatim>\<open>{success: false, error}\<close> with that error; a submission that is \<^verbatim>\<open>null\<close> or \<^verbatim>\<open>undefined\<close>
  is answered so. Let no call of the spreadsheet service fail and the submission be an
  object (or any value but \<^verbatim>\<open>null\<close> and \<^verbatim>\<open>undefined\<close>). When its tasks are missing or an array
  of tasks that can be printed (no task is \<^verbatim>\<open>null\<close>, and neither a category, a description
  or hours nor the total hours are an object with a property named \<^verbatim>\<open>toString\<close>, or an
  array holding one), exactly one row of six columns is appended to the sheet, which is
  created with its header if need be, and the response reports success. In that row a
  missing email or name is the empty string, missing tasks are the empty text with a task
  count of 0, and missing total hours are 0, printed as whole hours. A field is missing
  when it is absent, \<^verbatim>\<open>null\<close>, empty, zero or false. In every other case, tasks that are
  present but no such array or total hours that cannot be printed, the body throws a
  TypeError: the response reports the failure and no row is appended.
\<close>
theorem saveToSheet_defaults:
  "(snd (saveToSheet_try env data ss) = Inl e
      \<longrightarrow> saveToSheet env data ss = (fst (saveToSheet_try env data ss), Failure e))
   \<and> ((\<forall>c \<in> set critical_calls. \<not> fails env c) \<and> (data = JNull \<or> data = JUndefined)
      \<longrightarrow> snd (saveToSheet env data ss) = Failure TypeError)
   \<and> ((\<forall>c \<in> set critical_calls. \<not> fails env c) \<and> data \<noteq> JNull \<and> data \<noteq> JUndefined
        \<and> (missing data ''tasks'' \<or> task_list (field data ''tasks''))
        \<and> printable (field data ''totalHours'')
      \<longrightarrow> (\<exists>row result.
             snd (saveToSheet env data ss) = Success result
             \<and> sheets (fst (saveToSheet env data ss)) SHEET_NAME = Some (rows_before ss @ [row])
             \<and> length row = 6
             \<and> row ! 0 = CDate (now env)
             \<and> (missing data ''email'' \<longrightarrow> row ! 1 = CVal (JStr []))
             \<and> (missing data ''employeeName'' \<longrightarrow> row ! 2 = CVal (JStr []))
             \<and> (missing data ''tasks'' \<longrightarrow> row ! 4 = CVal (JStr []) \<and> r_totalTasks result = 0)
             \<and> (missing data ''totalHours'' \<longrightarrow>
                  row ! 5 = CVal (JStr (num_str env 0 @ '' hrs''))
                  \<and> r_totalHours result = JNum 0)))
   \<and> ((\<forall>c \<in> set critical_calls. \<not> fails env c) \<and> data \<noteq> JNull \<and> data \<noteq> JUndefined
        \<and> \<not> ((missing data ''tasks'' \<or> task_list (field data ''tasks''))
               \<and> printable (field data ''totalHours''))
      \<longrightarrow> snd (saveToSheet env data ss) = Failure TypeError
          \<and> sheets (fst (saveToSheet env data ss)) SHEET_NAME = Some (rows_before ss))"
proof (intro conjI impI)
  assume "snd (saveToSheet_try env data ss) = Inl e"
  then show "saveToSheet env data ss = (fst (saveToSheet_try env data ss), Failure e)"
    by (cases "saveToSheet_try env data ss") (simp add: saveToSheet_def)
next
  assume a: "(\<forall>c \<in> set critical_calls. \<not> fails env c) \<and> (data = JNull \<or> data = JUndefined)"
  then have "build_row env data = Inl TypeError"
    by (auto simp: build_row_def bind_err_def)
  with a show "snd (saveToSheet env data ss) = Failure TypeError"
    by (simp add: saveToSheet_def saveToSheet_try_def ensure_sheet_ok)
next
  assume a: "(\<forall>c \<in> set critical_calls. \<not> fails env c) \<and> data \<noteq> JNull \<and> data \<noteq> JUndefined
        \<and> \<not> ((missing data ''tasks'' \<or> task_list (field data ''tasks''))
               \<and> printable (field data ''totalHours''))"
  then have nf: "\<forall>c \<in> set critical_calls. \<not> fails env c"
    and br: "build_row env data = Inl TypeError"
    using build_row_fail by simp_all
  then have s: "saveToSheet env data ss =
      (ss\<lparr>sheets := (sheets ss)(SHEET_NAME \<mapsto> rows_before ss)\<rparr>, Failure TypeError)"
    by (simp add: saveToSheet_def saveToSheet_try_def ensure_sheet_ok)
  show "snd (saveToSheet env data ss) = Failure TypeError"
    "sheets (fst (saveToSheet env data ss)) SHEET_NAME = Some (rows_before ss)"
    by (simp_all add: s)
next
  assume a: "(\<forall>c \<in> set critical_calls. \<not> fails env c) \<and> data \<noteq> JNull \<and> data \<noteq> JUndefined
        \<and> (missing data ''tasks'' \<or> task_list (field data ''tasks''))
        \<and> printable (field data ''totalHours'')"
  then have nf: "\<forall>c \<in> set critical_calls. \<not> fails env c"
    and d: "data \<noteq> JNull" "data \<noteq> JUndefined"
    and t: "missing data ''tasks'' \<or> task_list (field data ''tasks'')"
    and p: "printable (field data ''totalHours'')"
    by simp_all
  let ?hours = "js_or (field data ''totalHours'') (JNum 0)"
  from build_row_ok [OF d t p, of env] obtain ts lines timeSpent
    where ts: "js_or (field data ''tasks'') (JArr []) = JArr ts"
      and ls: "format_tasks (num_str env) ts = Inr lines"
      and tm: "time_spent env ?hours = Inr timeSpent"
      and br: "build_row env data =
         Inr ([CDate (now env),
               CVal (js_or (field data ''email'') (JStr [])),
               CVal (js_or (field data ''employeeName'') (JStr [])),
               CVal (js_or (field data ''reportDate'') (JStr (today_iso env))),
               CVal (JStr (join [CHR 0x0A] lines)),
               CVal (JStr timeSpent)],
              length ts, ?hours)"
    by blast
  let ?row = "[CDate (now env),
               CVal (js_or (field data ''email'') (JStr [])),
               CVal (js_or (field data ''employeeName'') (JStr [])),
               CVal (js_or (field data ''reportDate'') (JStr (today_iso env))),
               CVal (JStr (join [CHR 0x0A] lines)),
               CVal (JStr timeSpent)]"
  let ?ss1 = "ss\<lparr>sheets := (sheets ss)(SHEET_NAME \<mapsto> rows_before ss)\<rparr>"
  let ?ss2 = "?ss1\<lparr>sheets := (sheets ?ss1)(SHEET_NAME \<mapsto> rows_before ss @ [?row])\<rparr>"
  let ?res = "\<lparr>r_timestamp = now_iso env, r_totalTasks = length ts, r_totalHours = ?hours,
               r_sheetName = SHEET_NAME, r_sheetUrl = url ?ss2\<rparr>"
  have tr: "saveToSheet_try env data ss = (?ss2, Inr ?res)"
    using no_critical_failure [OF nf]
    by (simp add: saveToSheet_try_def ensure_sheet_ok [OF nf] br or_empty_def)
  then have save: "saveToSheet env data ss = (?ss2, Success ?res)"
    by (simp add: saveToSheet_def)
  have tasks0: "missing data ''tasks'' \<longrightarrow> ts = [] \<and> lines = []"
  proof
    assume "missing data ''tasks''"
    then have "js_or (field data ''tasks'') (JArr []) = JArr []"
      using d by (rule missing_field [rotated 2])
    with ts have "ts = []" by simp
    with ls show "ts = [] \<and> lines = []" by simp
  qed
  have hours0: "missing data ''totalHours'' \<longrightarrow>
      ?hours = JNum 0 \<and> timeSpent = num_str env 0 @ '' hrs''"
  proof
    assume "missing data ''totalHours''"
    then have h: "?hours = JNum 0" using d by (simp add: missing_field)
    with tm show "?hours = JNum 0 \<and> timeSpent = num_str env 0 @ '' hrs''"
      by (simp add: time_spent_zero)
  qed
  have email0: "missing data ''email'' \<longrightarrow> js_or (field data ''email'') (JStr []) = JStr []"
    using d by (simp add: missing_field)
  have name0: "missing data ''employeeName'' \<longrightarrow>
      js_or (field data ''employeeName'') (JStr []) = JStr []"
    using d by (simp add: missing_field)
  have "snd (saveToSheet env data ss) = Success ?res
        \<and> sheets (fst (saveToSheet env data ss)) SHEET_NAME = Some (rows_before ss @ [?row])
        \<and> length ?row = 6
        \<and> ?row ! 0 = CDate (now env)
        \<and> (missing data ''email'' \<longrightarrow> ?row ! 1 = CVal (JStr []))
        \<and> (missing data ''employeeName'' \<longrightarrow> ?row ! 2 = CVal (JStr []))
        \<and> (missing data ''tasks'' \<longrightarrow> ?row ! 4 = CVal (JStr []) \<and> r_totalTasks ?res = 0)
        \<and> (missing data ''totalHours'' \<longrightarrow>
              ?row ! 5 = CVal (JStr (num_str env 0 @ '' hrs''))
              \<and> r_totalHours ?res = JNum 0)"
    using tasks0 hours0 email0 name0
    by (simp add: save join_def)
  then show "\<exists>row result.
             snd (saveToSheet env data ss) = Success result
             \<and> sheets (fst (saveToSheet env data ss)) SHEET_NAME = Some (rows_before ss @ [row])
             \<and> length row = 6
             \<and> row ! 0 = CDate (now env)
             \<and> (missing data ''email'' \<longrightarrow> row ! 1 = CVal (JStr []))
             \<and> (missing data ''employeeName'' \<longrightarrow> row ! 2 = CVal (JStr []))
             \<and> (missing data ''tasks'' \<longrightarrow> row ! 4 = CVal (JStr []) \<and> r_totalTasks result = 0)
             \<and> (missing data ''totalHours'' \<longrightarrow>
                  row ! 5 = CVal (JStr (num_str env 0 @ '' hrs''))
                  \<and> r_totalHours result = JNum 0)"
    by blast
qed

text \<open>A submission with nothing but a date is saved as a row of defaults, and \<^verbatim>\<open>null\<close> is
  answered with a failure.\<close>
theorem saveToSheet_defaults_witness:
  "list_all (\<lambda>c. \<not> fails quiet_env c) critical_calls
   \<and> missing bare_submission ''tasks'' \<and> missing bare_submission ''totalHours''
   \<and> missing bare_submission ''email'' \<and> missing bare_submission ''employeeName''
   \<and> (\<exists>result. saveToSheet quiet_env bare_submission one_report =
         (one_report\<lparr>sheets := [SHEET_NAME \<mapsto> [header_row, bare_row]]\<rparr>, Success result)
         \<and> r_totalTasks result = 0 \<and> r_totalHours result = JNum 0)
   \<and> length bare_row = 6
   \<and> snd (saveToSheet quiet_env JNull one_report) = Failure TypeError
   \<and> snd (saveToSheet quiet_env hidden_toString one_report) = Failure TypeError
   \<and> sheets (fst (saveToSheet quiet_env hidden_toString one_report)) SHEET_NAME
       = Some [header_row]"
proof -
  have nf: "\<forall>c \<in> set critical_calls. \<not> fails quiet_env c"
    by (simp add: quiet_env_def)
  have ms: "missing bare_submission ''tasks''" "missing bare_submission ''totalHours''"
    "missing bare_submission ''email''" "missing bare_submission ''employeeName''"
    by (simp_all add: missing_def bare_submission_def)
  have nn: "bare_submission \<noteq> JNull" "bare_submission \<noteq> JUndefined"
    by (simp_all add: bare_submission_def)
  have pr: "printable (field bare_submission ''totalHours'')"
    by (simp add: field_def bare_submission_def)
  have hn: "hidden_toString \<noteq> JNull" "hidden_toString \<noteq> JUndefined"
    by (simp_all add: hidden_toString_def)
  have ht: "\<not> missing hidden_toString ''tasks''"
    "\<not> task_list (field hidden_toString ''tasks'')"
    by (simp_all add: missing_def field_def hidden_toString_def task_list_def task_ok_def)
  have rb: "rows_before one_report = [header_row]"
    by (simp add: rows_before_def one_report_def)
  from saveToSheet_defaults [of quiet_env bare_submission one_report TypeError] nf ms nn rb pr
  have "\<exists>result.
      snd (saveToSheet quiet_env bare_submission one_report) = Success result
      \<and> r_totalTasks result = 0 \<and> r_totalHours result = JNum 0"
    by auto
  then obtain result where
    r: "snd (saveToSheet quiet_env bare_submission one_report) = Success result"
      "r_totalTasks result = 0" "r_totalHours result = JNum 0"
    by blast
  have s: "fst (saveToSheet quiet_env bare_submission one_report)
      = one_report\<lparr>sheets := [SHEET_NAME \<mapsto> [header_row, bare_row]]\<rparr>"
  proof -
    have e: "ensure_sheet quiet_env one_report = (one_report, Inr ())"
      by (simp add: ensure_sheet_def quiet_env_def one_report_def)
    have fl: "\<not> fails quiet_env AppendRow" "\<not> fails quiet_env GetLastRow"
      "\<not> fails quiet_env GetUrl"
      by (simp_all add: quiet_env_def)
    have o: "sheets one_report SHEET_NAME = Some [header_row]"
      by (simp add: one_report_def)
    show ?thesis
      by (simp add: saveToSheet_def saveToSheet_try_def e bare_submission_row fl o or_empty_def)
        (simp add: one_report_def)
  qed
  from r(1) s have sv: "saveToSheet quiet_env bare_submission one_report =
         (one_report\<lparr>sheets := [SHEET_NAME \<mapsto> [header_row, bare_row]]\<rparr>, Success result)"
    by (metis prod.collapse)
  from saveToSheet_defaults [of quiet_env JNull one_report TypeError] nf
  have n: "snd (saveToSheet quiet_env JNull one_report) = Failure TypeError" by simp
  from saveToSheet_defaults [of quiet_env hidden_toString one_report TypeError] nf hn ht rb
  have k: "snd (saveToSheet quiet_env hidden_toString one_report) = Failure TypeError"
    "sheets (fst (saveToSheet quiet_env hidden_toString one_report)) SHEET_NAME
       = Some [header_row]"
    by simp_all
  have l: "length bare_row = 6" by (simp add: bare_row_def)
  from nf have "list_all (\<lambda>c. \<not> fails quiet_env c) critical_calls"
    by (simp add: list_all_iff)
  with ms sv r(2,3) l n k show ?thesis by blast
qed

section \<open>Properties of the quick filters\<close>

lemma top_performers_filters:
  "applyQuickFilter clk ''top-performers'' = no_filters\<lparr>statuses := [''Excellent'', ''Good'']\<rparr>"
  by (simp add: applyQuickFilter_def)

lemma need_attention_filters:
  "applyQuickFilter clk ''need-attention'' =
     no_filters\<lparr>statuses := [''Poor'', ''Very Poor'', ''Non-Reporter'']\<rparr>"
  by (simp add: applyQuickFilter_def)

text \<open>
  Claim C10. The quick filter \<^verbatim>\<open>top-performers\<close> presets the statuses Excellent and Good and
  the quick filter \<^verbatim>\<open>need-attention\<close> the statuses Poor, Very Poor and Non-Reporter; whatever
  the clock, handing the preset to \<^verbatim>\<open>handleFiltersApply\<close> sends exactly the message
  \<^verbatim>\<open>Show top performing employees\<close>, respectively \<^verbatim>\<open>Show employees needing attention\<close>.
\<close>
theorem quick_filter_messages:
  "statuses (applyQuickFilter clk ''top-performers'') = [''Excellent'', ''Good'']
   \<and> generateFilterQuery clk (applyQuickFilter clk ''top-performers'')
       = ''Show top performing employees''
   \<and> snd (quick_filter_click clk ''top-performers'') = Some ''Show top performing employees''
   \<and> statuses (applyQuickFilter clk ''need-attention'') = [''Poor'', ''Very Poor'', ''Non-Reporter'']
   \<and> generateFilterQuery clk (applyQuickFilter clk ''need-attention'')
       = ''Show employees needing attention''
   \<and> snd (quick_filter_click clk ''need-attention'') = Some ''Show employees needing attention''"
proof -
  have t: "generateFilterQuery clk (no_filters\<lparr>statuses := [''Excellent'', ''Good'']\<rparr>)
      = ''Show top performing employees''"
    by (simp add: generateFilterQuery_def no_filters_def)
  have n: "generateFilterQuery clk (no_filters\<lparr>statuses := [''Poor'', ''Very Poor'', ''Non-Reporter'']\<rparr>)
      = ''Show employees needing attention''"
    by (simp add: generateFilterQuery_def no_filters_def)
  have "snd (quick_filter_click clk ''top-performers'') = Some ''Show top performing employees''"
    by (simp add: quick_filter_click_def handleFiltersApply_def top_performers_filters t Let_def)
  moreover have "snd (quick_filter_click clk ''need-attention'')
      = Some ''Show employees needing attention''"
    by (simp add: quick_filter_click_def handleFiltersApply_def need_attention_filters n Let_def)
  ultimately show ?thesis
    by (simp add: top_performers_filters need_attention_filters t n)
qed

end
